theory Spec2Isabelle
  imports Main "HOL-Library.Word" "HOL-Library.Multiset"
begin

text \<open>
  A shallow embedding of the multi-list grocery server \<^verbatim>\<open>server.js\<close>: the file
  \<^verbatim>\<open>database.json\<close> as an explicit store that every route takes and returns, the
  routes \<^verbatim>\<open>POST /lists\<close>, \<^verbatim>\<open>GET /lists/:listId/groceries\<close>,
  \<^verbatim>\<open>POST /lists/:listId/groceries\<close>, \<^verbatim>\<open>POST /lists/:listId/groceries/reorder\<close> and
  \<^verbatim>\<open>DELETE /lists/:listId/groceries/:itemId\<close> as functions from the request and the
  store to the response and the store (the two routes that spread an array into
  \<^verbatim>\<open>Math.max\<close> also take the number of arguments that the engine accepts), and the
  properties of loading, listing, adding, reordering and deleting proved about them.
\<close>

section \<open>JavaScript values\<close>

text \<open>
  A JavaScript string is a sequence of UTF-16 code units. The values that reach the
  routes come out of \<^verbatim>\<open>express.json()\<close> and of \<^verbatim>\<open>JSON.parse\<close>, so they are JSON
  values, or \<^verbatim>\<open>undefined\<close> for a property that the request body does not have.
  Numbers are IEEE 754 doubles. The ids and positions of the data model are integers, and
  an integer-valued double is modelled by the integer that it is. Comparison, \<^verbatim>\<open>===\<close>
  and \<^verbatim>\<open>Math.max\<close> are exact on doubles; a sum is rounded to the nearest double
  (\<open>round_double\<close> below), and so is a difference, which keeps its sign.
\<close>

datatype exn = IOError | SyntaxError | TypeError | RangeError

type_synonym jsstring = "16 word list"

datatype jsval =
    JUndefined
  | JNull
  | JBool bool
  | JNum int
  | JStr jsstring
  | JArr "jsval list"
  | JObj "(jsstring \<times> jsval) list"

text \<open>\<^verbatim>\<open>!name\<close> is \<^verbatim>\<open>\<not> truthy name\<close>.\<close>

fun truthy :: "jsval \<Rightarrow> bool" where
  "truthy JUndefined = False"
| "truthy JNull = False"
| "truthy (JBool b) = b"
| "truthy (JNum n) = (n \<noteq> 0)"
| "truthy (JStr s) = (s \<noteq> [])"
| "truthy (JArr vs) = True"
| "truthy (JObj kvs) = True"

fun typeof :: "jsval \<Rightarrow> string" where
  "typeof JUndefined = ''undefined''"
| "typeof JNull = ''object''"
| "typeof (JBool b) = ''boolean''"
| "typeof (JNum n) = ''number''"
| "typeof (JStr s) = ''string''"
| "typeof (JArr vs) = ''object''"
| "typeof (JObj kvs) = ''object''"

text \<open>
  \<^verbatim>\<open>String.prototype.trim\<close> strips the code units of ECMAScript's WhiteSpace and
  LineTerminator productions from both ends: TAB, LF, VT, FF, CR, SP, NBSP, U+1680,
  U+2000 to U+200A, U+2028, U+2029, U+202F, U+205F, U+3000 and U+FEFF.
\<close>

definition is_white :: "16 word \<Rightarrow> bool" where
  "is_white c \<longleftrightarrow>
     c = 0x0009 \<or> c = 0x000A \<or> c = 0x000B \<or> c = 0x000C \<or> c = 0x000D \<or> c = 0x0020 \<or>
     c = 0x00A0 \<or> c = 0x1680 \<or> (0x2000 \<le> c \<and> c \<le> 0x200A) \<or> c = 0x2028 \<or>
     c = 0x2029 \<or> c = 0x202F \<or> c = 0x205F \<or> c = 0x3000 \<or> c = 0xFEFF"

definition trim :: "jsstring \<Rightarrow> jsstring" where
  "trim s = rev (dropWhile is_white (rev (dropWhile is_white s)))"

text \<open>
  \<^verbatim>\<open>Math.max(...xs)\<close> on a non-empty array. The spread passes every element as an
  argument of the call, and an engine takes only so many arguments: beyond them the call
  throws a RangeError. The source does not fix that number; it is the parameter \<open>lim\<close>
  of the routes that spread an array. With no argument JavaScript gives
  \<^verbatim>\<open>-Infinity\<close>; every call of the source is guarded by \<^verbatim>\<open>length > 0\<close>, so that
  equation is left out.
\<close>

fun math_max :: "nat \<Rightarrow> int list \<Rightarrow> exn + int" where
  "math_max lim (x # xs) =
     (if lim < length (x # xs) then Inl RangeError else Inr (fold max xs x))"

text \<open>
  The nearest double to an integer, ties to the even significand: an integer below
  \<open>2^53\<close> in magnitude is a double; a greater one has more than 53 significant bits and
  loses the low \<open>e\<close> of them. (Beyond the greatest double the sum would be
  \<^verbatim>\<open>Infinity\<close>; the sum of a double and 1 never is.) \<^verbatim>\<open>m + 1\<close> is \<open>add_one m\<close>.
\<close>

fun bit_length :: "nat \<Rightarrow> nat" where
  "bit_length n = (if n = 0 then 0 else Suc (bit_length (n div 2)))"

declare bit_length.simps [simp del]

definition round_double :: "int \<Rightarrow> int" where
  "round_double x =
     (let a = nat \<bar>x\<bar> in
      if a < 2 ^ 53 then x
      else
        (let e = bit_length a - 53;
             q = a div 2 ^ e;
             r = a mod 2 ^ e;
             m = (if 2 * r < 2 ^ e \<or> (2 * r = 2 ^ e \<and> even q) then q else q + 1)
         in sgn x * int (m * 2 ^ e)))"

definition add_one :: "int \<Rightarrow> int" where
  "add_one m = round_double (m + 1)"

text \<open>\<^verbatim>\<open>Number.isSafeInteger\<close> on an integer.\<close>

definition safe_integer :: "int \<Rightarrow> bool" where
  "safe_integer n \<longleftrightarrow> \<bar>n\<bar> < 2 ^ 53"

text \<open>
  \<^verbatim>\<open>Array.prototype.sort(comparefn)\<close> is a stable sort: \<^verbatim>\<open>a\<close> comes before \<^verbatim>\<open>b\<close>
  when \<^verbatim>\<open>comparefn(a, b) < 0\<close>, after it when \<^verbatim>\<open>comparefn(a, b) > 0\<close>, and the two
  keep their order when it is 0. It is modelled as the insertion sort that inserts each
  element, from the last to the first, in front of the first element it does not exceed.
\<close>

fun sort_insert :: "('a \<Rightarrow> 'a \<Rightarrow> int) \<Rightarrow> 'a \<Rightarrow> 'a list \<Rightarrow> 'a list" where
  "sort_insert comparefn x [] = [x]"
| "sort_insert comparefn x (y # ys) =
     (if comparefn x y \<le> 0 then x # y # ys else y # sort_insert comparefn x ys)"

fun array_sort :: "('a \<Rightarrow> 'a \<Rightarrow> int) \<Rightarrow> 'a list \<Rightarrow> 'a list" where
  "array_sort comparefn [] = []"
| "array_sort comparefn (x # xs) = sort_insert comparefn x (array_sort comparefn xs)"

text \<open>\<^verbatim>\<open>Array.prototype.findIndex\<close>, with \<open>None\<close> for \<^verbatim>\<open>-1\<close>.\<close>

fun findIndex :: "('a \<Rightarrow> bool) \<Rightarrow> 'a list \<Rightarrow> nat option" where
  "findIndex p [] = None"
| "findIndex p (x # xs) =
     (if p x then Some 0 else map_option Suc (findIndex p xs))"

section \<open>The data model\<close>

record item =
  item_id :: int
  item_name :: jsstring
  checked :: bool
  position :: int

record glist =
  list_id :: int
  list_name :: jsstring
  items :: "item list"

record document =
  lists :: "glist list"

section \<open>The store: \<^verbatim>\<open>database.json\<close>\<close>

text \<open>
  The file at \<^verbatim>\<open>DB_PATH\<close> is absent (\<^verbatim>\<open>readFile\<close> rejects with code ENOENT),
  unreadable for another reason, holds text that \<^verbatim>\<open>JSON.parse\<close> rejects, or holds the
  text that \<^verbatim>\<open>JSON.stringify\<close> wrote for a document, which \<^verbatim>\<open>JSON.parse\<close> reads back
  as that document. \<open>writable\<close> says whether \<^verbatim>\<open>writeFile\<close> resolves; a rejected write
  is modelled as leaving the file as it was.
\<close>

datatype file_state = ENOENT | Unreadable | Malformed | Stored document

record store =
  content :: file_state
  writable :: bool

definition writeDatabase :: "document \<Rightarrow> store \<Rightarrow> (exn + unit) \<times> store" where
  "writeDatabase data st =
     (if writable st then (Inr (), st\<lparr>content := Stored data\<rparr>) else (Inl IOError, st))"

text \<open>The name of the default list is S, m, U+00E5 (a with ring above), h, a, n, d, l, i, n, g.\<close>

definition initialData :: document where
  "initialData =
     \<lparr>lists = [\<lparr>list_id = 1,
                list_name = [0x53, 0x6D, 0xE5, 0x68, 0x61, 0x6E, 0x64, 0x6C, 0x69, 0x6E, 0x67],
                items = []\<rparr>]\<rparr>"

definition readDatabase :: "store \<Rightarrow> (exn + document) \<times> store" where
  "readDatabase st =
     (case content st of
        Stored data \<Rightarrow> (Inr data, st)
      | Malformed \<Rightarrow> (Inl SyntaxError, st)
      | Unreadable \<Rightarrow> (Inl IOError, st)
      | ENOENT \<Rightarrow>
          (case writeDatabase initialData st of
             (Inl e, st') \<Rightarrow> (Inl e, st')
           | (Inr u, st') \<Rightarrow> (Inr initialData, st')))"

section \<open>Responses\<close>

datatype body =
    Message string
  | ListBody glist
  | ItemBody item
  | Items "item list"
  | Empty

datatype response = Response nat body

text \<open>
  A route parameter is \<^verbatim>\<open>parseInt(req.params.x, 10)\<close>: an integer, or \<^verbatim>\<open>NaN\<close>
  (\<open>None\<close>), which \<^verbatim>\<open>===\<close> equates with nothing.
\<close>

type_synonym param = "int option"

text \<open>\<^verbatim>\<open>db.lists.find(l => l.id === listId)\<close>, as the index of the list found.\<close>

definition find_list :: "glist list \<Rightarrow> param \<Rightarrow> nat option" where
  "find_list ls listId = findIndex (\<lambda>l. Some (list_id l) = listId) ls"

text \<open>
  \<^verbatim>\<open>name.trim()\<close> on an arbitrary value: only a string has the method; on
  \<^verbatim>\<open>undefined\<close> and \<^verbatim>\<open>null\<close> the property access throws a TypeError, on every
  other value \<^verbatim>\<open>name.trim\<close> is \<^verbatim>\<open>undefined\<close> and the call throws a TypeError.
\<close>

fun name_trim :: "jsval \<Rightarrow> exn + jsstring" where
  "name_trim (JStr s) = Inr (trim s)"
| "name_trim v = Inl TypeError"

section \<open>\<^verbatim>\<open>POST /lists\<close>\<close>

definition newId :: "nat \<Rightarrow> glist list \<Rightarrow> exn + int" where
  "newId lim ls =
     (if length ls > 0
      then (case math_max lim (map list_id ls) of Inl e \<Rightarrow> Inl e | Inr m \<Rightarrow> Inr (add_one m))
      else Inr 1)"

definition post_lists :: "nat \<Rightarrow> jsval \<Rightarrow> store \<Rightarrow> response \<times> store" where
  "post_lists lim name st =
     (if \<not> truthy name \<or> typeof name \<noteq> ''string'' \<or> name_trim name = Inr []
      then (Response 400 (Message ''List name is required.''), st)
      else
        (case readDatabase st of
           (Inl e, st1) \<Rightarrow> (Response 500 (Message ''Error updating database.''), st1)
         | (Inr db, st1) \<Rightarrow>
             (case newId lim (lists db) of
                Inl e \<Rightarrow> (Response 500 (Message ''Error updating database.''), st1)
              | Inr nid \<Rightarrow>
                  (case name_trim name of
                     Inl e \<Rightarrow> (Response 500 (Message ''Error updating database.''), st1)
                   | Inr trimmed \<Rightarrow>
                       (let newList = \<lparr>list_id = nid, list_name = trimmed, items = []\<rparr>;
                            db' = db\<lparr>lists := lists db @ [newList]\<rparr>
                        in (case writeDatabase db' st1 of
                              (Inl e, st2) \<Rightarrow>
                                (Response 500 (Message ''Error updating database.''), st2)
                            | (Inr u, st2) \<Rightarrow> (Response 201 (ListBody newList), st2)))))))"

section \<open>\<^verbatim>\<open>GET /lists/:listId/groceries\<close>\<close>

definition listItems :: "item list \<Rightarrow> item list" where
  "listItems its = array_sort (\<lambda>a b. position a - position b) its"

definition get_groceries :: "param \<Rightarrow> store \<Rightarrow> response \<times> store" where
  "get_groceries listId st =
     (case readDatabase st of
        (Inl e, st1) \<Rightarrow> (Response 500 (Message ''Error reading from database.''), st1)
      | (Inr db, st1) \<Rightarrow>
          (case find_list (lists db) listId of
             None \<Rightarrow> (Response 404 (Message ''List not found.''), st1)
           | Some ix \<Rightarrow> (Response 200 (Items (listItems (items (lists db ! ix)))), st1)))"

section \<open>\<^verbatim>\<open>POST /lists/:listId/groceries\<close>\<close>

definition newItemId :: "nat \<Rightarrow> item list \<Rightarrow> exn + int" where
  "newItemId lim its =
     (if length its > 0
      then (case math_max lim (map item_id its) of Inl e \<Rightarrow> Inl e | Inr m \<Rightarrow> Inr (add_one m))
      else Inr 1)"

definition newPosition :: "nat \<Rightarrow> item list \<Rightarrow> exn + int" where
  "newPosition lim its =
     (if length its > 0
      then (case math_max lim (map position its) of Inl e \<Rightarrow> Inl e | Inr m \<Rightarrow> Inr (add_one m))
      else Inr 0)"

definition post_groceries :: "nat \<Rightarrow> param \<Rightarrow> jsval \<Rightarrow> store \<Rightarrow> response \<times> store" where
  "post_groceries lim listId name st =
     (case readDatabase st of
        (Inl e, st1) \<Rightarrow> (Response 500 (Message ''Error updating database.''), st1)
      | (Inr db, st1) \<Rightarrow>
          (case find_list (lists db) listId of
             None \<Rightarrow> (Response 404 (Message ''List not found.''), st1)
           | Some ix \<Rightarrow>
               (let list = lists db ! ix in
                (case newItemId lim (items list) of
                   Inl e \<Rightarrow> (Response 500 (Message ''Error updating database.''), st1)
                 | Inr nid \<Rightarrow>
                     (case newPosition lim (items list) of
                        Inl e \<Rightarrow> (Response 500 (Message ''Error updating database.''), st1)
                      | Inr npos \<Rightarrow>
                          (case name_trim name of
                             Inl e \<Rightarrow> (Response 500 (Message ''Error updating database.''), st1)
                           | Inr trimmed \<Rightarrow>
                               (let newItem = \<lparr>item_id = nid, item_name = trimmed,
                                                checked = False, position = npos\<rparr>;
                                    db' = db\<lparr>lists := (lists db)[ix :=
                                            list\<lparr>items := items list @ [newItem]\<rparr>]\<rparr>
                                in (case writeDatabase db' st1 of
                                      (Inl e, st2) \<Rightarrow>
                                        (Response 500 (Message ''Error updating database.''), st2)
                                    | (Inr u, st2) \<Rightarrow>
                                        (Response 201 (ItemBody newItem), st2)))))))))"

section \<open>\<^verbatim>\<open>POST /lists/:listId/groceries/reorder\<close>\<close>

text \<open>
  The items of a list are objects that \<^verbatim>\<open>JSON.parse\<close> has just made, one for each
  element of the array, so a reference to an item is its index in \<^verbatim>\<open>list.items\<close>.
  \<^verbatim>\<open>new Map(entries)\<close> sets the entries in order, a later entry replacing an earlier
  one with the same key. The keys are numbers, and \<^verbatim>\<open>Map.prototype.get\<close> compares
  with SameValueZero, so only a number finds an entry.
\<close>

definition itemMap :: "item list \<Rightarrow> (int \<rightharpoonup> nat)" where
  "itemMap its =
     fold (\<lambda>(k, v) m. m(k \<mapsto> v)) (map (\<lambda>i. (item_id (its ! i), i)) [0..<length its]) Map.empty"

fun map_get :: "(int \<rightharpoonup> nat) \<Rightarrow> jsval \<Rightarrow> nat option" where
  "map_get m (JNum n) = m n"
| "map_get m v = None"

text \<open>The body of \<^verbatim>\<open>orderedIds.forEach((id, index) => ...)\<close>, from \<open>index\<close> on.\<close>

fun forEach :: "(int \<rightharpoonup> nat) \<Rightarrow> jsval list \<Rightarrow> nat \<Rightarrow> item list \<Rightarrow> item list" where
  "forEach m [] index its = its"
| "forEach m (idv # ids) index its =
     (case map_get m idv of
        Some r \<Rightarrow> forEach m ids (Suc index) (its[r := (its ! r)\<lparr>position := int index\<rparr>])
      | None \<Rightarrow> forEach m ids (Suc index) its)"

definition reorder :: "item list \<Rightarrow> jsval list \<Rightarrow> item list" where
  "reorder its orderedIds = forEach (itemMap its) orderedIds 0 its"

text \<open>\<^verbatim>\<open>Array.isArray(orderedIds)\<close> holds of the values \<open>JArr ids\<close> and of no other.\<close>

definition post_reorder :: "param \<Rightarrow> jsval \<Rightarrow> store \<Rightarrow> response \<times> store" where
  "post_reorder listId orderedIds st =
     (case orderedIds of
        JArr ids \<Rightarrow>
          (case readDatabase st of
             (Inl e, st1) \<Rightarrow> (Response 500 (Message ''Error updating database.''), st1)
           | (Inr db, st1) \<Rightarrow>
               (case find_list (lists db) listId of
                  None \<Rightarrow> (Response 404 (Message ''List not found.''), st1)
                | Some ix \<Rightarrow>
                    (let list = lists db ! ix;
                         db' = db\<lparr>lists := (lists db)[ix := list\<lparr>items := reorder (items list) ids\<rparr>]\<rparr>
                     in (case writeDatabase db' st1 of
                           (Inl e, st2) \<Rightarrow> (Response 500 (Message ''Error updating database.''), st2)
                         | (Inr u, st2) \<Rightarrow>
                             (Response 200 (Message ''List reordered successfully.''), st2)))))
      | _ \<Rightarrow> (Response 400 (Message ''orderedIds must be an array.''), st))"

section \<open>\<^verbatim>\<open>DELETE /lists/:listId/groceries/:itemId\<close>\<close>

definition delete_groceries :: "param \<Rightarrow> param \<Rightarrow> store \<Rightarrow> response \<times> store" where
  "delete_groceries listId itemId st =
     (case readDatabase st of
        (Inl e, st1) \<Rightarrow> (Response 500 (Message ''Error updating database.''), st1)
      | (Inr db, st1) \<Rightarrow>
          (case find_list (lists db) listId of
             None \<Rightarrow> (Response 404 (Message ''List not found.''), st1)
           | Some ix \<Rightarrow>
               (let list = lists db ! ix;
                    initialLength = length (items list);
                    list' = list\<lparr>items := filter (\<lambda>i. Some (item_id i) \<noteq> itemId) (items list)\<rparr>
                in if length (items list') = initialLength
                   then (Response 404 (Message ''Item not found in list.''), st1)
                   else
                     (case writeDatabase (db\<lparr>lists := (lists db)[ix := list']\<rparr>) st1 of
                        (Inl e, st2) \<Rightarrow> (Response 500 (Message ''Error updating database.''), st2)
                      | (Inr u, st2) \<Rightarrow> (Response 204 Empty, st2)))))"

section \<open>Example data\<close>

text \<open>
  The scenario of the specification: a list with the items "milk" and "bread", in the
  store of a document that holds this list alone.
\<close>

definition milk :: item where
  "milk = \<lparr>item_id = 1, item_name = [0x6D, 0x69, 0x6C, 0x6B], checked = False, position = 0\<rparr>"

definition bread :: item where
  "bread = \<lparr>item_id = 2, item_name = [0x62, 0x72, 0x65, 0x61, 0x64], checked = False, position = 1\<rparr>"

definition groceries :: glist where
  "groceries = \<lparr>list_id = 1, list_name = [0x53, 0x68, 0x6F, 0x70], items = [milk, bread]\<rparr>"

definition shop :: store where
  "shop = \<lparr>content = Stored \<lparr>lists = [groceries]\<rparr>, writable = True\<rparr>"

text \<open>
  A file that holds a list in which two items have the id 1, and a file that holds a list
  whose item has the id and the position \<open>2^53\<close>. The source reads what the file holds.
\<close>

definition apples :: item where
  "apples = \<lparr>item_id = 1, item_name = [0x61], checked = False, position = 5\<rparr>"

definition pears :: item where
  "pears = \<lparr>item_id = 1, item_name = [0x70], checked = False, position = 6\<rparr>"

definition plums :: item where
  "plums = \<lparr>item_id = 2, item_name = [0x71], checked = False, position = 7\<rparr>"

definition fruit :: store where
  "fruit = \<lparr>content = Stored \<lparr>lists = [\<lparr>list_id = 1, list_name = [0x46],
              items = [apples, pears, plums]\<rparr>]\<rparr>, writable = True\<rparr>"

definition salt :: item where
  "salt = \<lparr>item_id = 9007199254740992, item_name = [0x73], checked = False,
            position = 9007199254740992\<rparr>"

definition pantry :: store where
  "pantry = \<lparr>content = Stored \<lparr>lists = [\<lparr>list_id = 9007199254740992, list_name = [0x50],
              items = [salt]\<rparr>]\<rparr>, writable = True\<rparr>"

section \<open>Auxiliary functions of the proofs\<close>

text \<open>
  What the loop of the reorder route leaves at reference \<open>r\<close>: the index of the last
  element of \<open>ids\<close> that the map sends to \<open>r\<close>, counted from \<open>index\<close>, if there is one.
\<close>

fun last_hit :: "(int \<rightharpoonup> nat) \<Rightarrow> jsval list \<Rightarrow> nat \<Rightarrow> nat \<Rightarrow> int option" where
  "last_hit m [] index r = None"
| "last_hit m (idv # ids) index r =
     (case last_hit m ids (Suc index) r of
        Some p \<Rightarrow> Some p
      | None \<Rightarrow> if map_get m idv = Some r then Some (int index) else None)"

section \<open>Lookup in arrays and in the item map\<close>

lemma findIndex_Some: "findIndex p xs = Some i \<Longrightarrow> i < length xs \<and> p (xs ! i)"
  by (induction xs arbitrary: i) (auto split: if_splits)

lemma fold_upd_Some:
  "fold (\<lambda>(k, v) m. m(k \<mapsto> v)) es m n = Some r \<Longrightarrow> (n, r) \<in> set es \<or> m n = Some r"
  by (induction es arbitrary: m) (fastforce split: if_splits)+

lemma fold_upd_other:
  "n \<notin> fst ` set es \<Longrightarrow> fold (\<lambda>(k, v) m. m(k \<mapsto> v)) es m n = m n"
  by (induction es arbitrary: m) auto

lemma itemMap_Some: "itemMap its n = Some r \<Longrightarrow> r < length its \<and> item_id (its ! r) = n"
  unfolding itemMap_def by (drule fold_upd_Some) auto

lemma itemMap_cong:
  assumes "map item_id a = map item_id b" shows "itemMap a = itemMap b"
proof -
  have len: "length a = length b" using assms by (metis length_map)
  have "map (\<lambda>i. (item_id (a ! i), i)) [0..<length a] = map (\<lambda>i. (item_id (b ! i), i)) [0..<length a]"
  proof (rule map_cong [OF refl])
    fix i assume "i \<in> set [0..<length a]"
    then have i: "i < length a" by simp
    have "map item_id a ! i = map item_id b ! i" using assms by simp
    then show "(item_id (a ! i), i) = (item_id (b ! i), i)" using i len by simp
  qed
  then have "itemMap a =
      fold (\<lambda>(k, v) m. m(k \<mapsto> v)) (map (\<lambda>i. (item_id (b ! i), i)) [0..<length a]) Map.empty"
    by (simp only: itemMap_def)
  also have "\<dots> = itemMap b" by (simp only: itemMap_def len)
  finally show ?thesis .
qed

lemma length_forEach: "length (forEach m ids index its) = length its"
  by (induction ids arbitrary: index its) (auto split: option.splits)

lemma forEach_nth:
  "r < length its \<Longrightarrow>
   forEach m ids index its ! r =
     (case last_hit m ids index r of Some p \<Rightarrow> (its ! r)\<lparr>position := p\<rparr> | None \<Rightarrow> its ! r)"
proof (induction ids arbitrary: index its)
  case Nil
  then show ?case by simp
next
  case (Cons idv ids)
  show ?case
  proof (cases "map_get m idv")
    case None
    then show ?thesis using Cons.IH [OF Cons.prems] by (simp split: option.splits)
  next
    case (Some q)
    let ?its = "its[q := (its ! q)\<lparr>position := int index\<rparr>]"
    have len: "r < length ?its" using Cons.prems by simp
    show ?thesis
      using Cons.IH [OF len, of "Suc index"] Some Cons.prems
      by (auto split: option.splits simp: nth_list_update)
  qed
qed

lemma forEach_ids: "map item_id (forEach m ids index its) = map item_id its"
proof (rule nth_equalityI)
  show "length (map item_id (forEach m ids index its)) = length (map item_id its)"
    by (simp add: length_forEach)
next
  fix r assume "r < length (map item_id (forEach m ids index its))"
  then have r: "r < length its" by (simp add: length_forEach)
  then show "map item_id (forEach m ids index its) ! r = map item_id its ! r"
    by (simp add: length_forEach forEach_nth split: option.splits)
qed

lemma reorder_idem: "reorder (reorder its ids) ids = reorder its ids"
proof -
  define once where "once = reorder its ids"
  have len: "length once = length its"
    by (simp add: once_def reorder_def length_forEach)
  have m: "itemMap once = itemMap its"
    unfolding once_def reorder_def by (rule itemMap_cong) (rule forEach_ids)
  have "reorder once ids = once"
  proof (rule nth_equalityI)
    show "length (reorder once ids) = length once"
      by (simp add: reorder_def length_forEach)
  next
    fix r assume "r < length (reorder once ids)"
    then have r: "r < length its" by (simp add: reorder_def length_forEach len)
    have first: "once ! r =
        (case last_hit (itemMap its) ids 0 r of
           Some p \<Rightarrow> (its ! r)\<lparr>position := p\<rparr> | None \<Rightarrow> its ! r)"
      unfolding once_def reorder_def using r by (rule forEach_nth)
    have "reorder once ids ! r =
        (case last_hit (itemMap its) ids 0 r of
           Some p \<Rightarrow> (once ! r)\<lparr>position := p\<rparr> | None \<Rightarrow> once ! r)"
      unfolding reorder_def m using r len by (simp add: forEach_nth)
    then show "reorder once ids ! r = once ! r"
      using first by (simp split: option.splits)
  qed
  then show ?thesis by (simp add: once_def)
qed

lemma last_hit_None:
  "\<forall>v\<in>set ids. map_get m v \<noteq> Some r \<Longrightarrow> last_hit m ids index r = None"
  by (induction ids arbitrary: index) auto

lemma last_hit_append:
  "last_hit m (xs @ ys) index r =
     (case last_hit m ys (index + length xs) r of
        Some p \<Rightarrow> Some p
      | None \<Rightarrow> last_hit m xs index r)"
  by (induction xs arbitrary: index) (auto split: option.splits)

lemma last_hit_last_occurrence:
  assumes "map_get m v = Some r" and "\<forall>w\<in>set post. map_get m w \<noteq> Some r"
  shows "last_hit m (pre @ v # post) index r = Some (int (index + length pre))"
  using assms by (simp add: last_hit_append last_hit_None)

lemma map_get_itemMap_Some:
  "map_get (itemMap its) v = Some r \<Longrightarrow> r < length its \<and> v = JNum (item_id (its ! r))"
  by (cases v) (auto dest: itemMap_Some)

lemma forEach_append:
  "forEach m (xs @ ys) index its = forEach m ys (index + length xs) (forEach m xs index its)"
  by (induction xs arbitrary: index its) (auto split: option.splits)

lemma fold_upd_last:
  "n \<notin> fst ` set post \<Longrightarrow>
   fold (\<lambda>(k, v) m. m(k \<mapsto> v)) (pre @ (n, r) # post) m n = Some r"
proof -
  assume "n \<notin> fst ` set post"
  then have "fold (\<lambda>(k, v) m. m(k \<mapsto> v)) post
      ((fold (\<lambda>(k, v) m. m(k \<mapsto> v)) pre m)(n \<mapsto> r)) n =
      ((fold (\<lambda>(k, v) m. m(k \<mapsto> v)) pre m)(n \<mapsto> r)) n"
    by (rule fold_upd_other)
  then show ?thesis
    by (simp only: fold_append fold_simps comp_apply case_prod_conv fun_upd_same)
qed

lemma fold_upd_Some_last:
  "fold (\<lambda>(k, v) m. m(k \<mapsto> v)) es m n = Some r \<Longrightarrow>
   (\<exists>pre post. es = pre @ (n, r) # post \<and> n \<notin> fst ` set post) \<or>
   (m n = Some r \<and> n \<notin> fst ` set es)"
proof (induction es arbitrary: m)
  case Nil
  then show ?case by simp
next
  case (Cons e es)
  obtain k v where e: "e = (k, v)" by (cases e)
  from Cons.prems have "fold (\<lambda>(k, v) m. m(k \<mapsto> v)) es (m(k \<mapsto> v)) n = Some r"
    by (simp only: e fold_simps comp_apply case_prod_conv)
  from Cons.IH [OF this] show ?case
  proof
    assume "\<exists>pre post. es = pre @ (n, r) # post \<and> n \<notin> fst ` set post"
    then obtain pre post where "es = pre @ (n, r) # post" and "n \<notin> fst ` set post" by blast
    then have "e # es = (e # pre) @ (n, r) # post \<and> n \<notin> fst ` set post" by simp
    then show ?thesis by blast
  next
    assume h: "(m(k \<mapsto> v)) n = Some r \<and> n \<notin> fst ` set es"
    show ?thesis
    proof (cases "k = n")
      case True
      with h have "e # es = [] @ (n, r) # es \<and> n \<notin> fst ` set es" by (simp add: e)
      then show ?thesis by blast
    next
      case False
      with h show ?thesis by (simp add: e)
    qed
  qed
qed

lemma itemMap_last:
  assumes "r < length its"
    and "\<forall>j. r < j \<and> j < length its \<longrightarrow> item_id (its ! j) \<noteq> item_id (its ! r)"
  shows "itemMap its (item_id (its ! r)) = Some r"
proof -
  have split: "[0..<length its] = [0..<r] @ r # [Suc r..<length its]"
    using assms(1) by (metis less_imp_add_positive upt_add_eq_append upt_conv_Cons zero_le le_add1 add.commute less_or_eq_imp_le)
  have later: "\<And>i. i \<in> set [Suc r..<length its] \<Longrightarrow> item_id (its ! i) \<noteq> item_id (its ! r)"
    using assms(2) by (simp add: Suc_le_eq)
  have "item_id (its ! r) \<notin> fst ` set (map (\<lambda>i. (item_id (its ! i), i)) [Suc r..<length its])"
  proof
    assume "item_id (its ! r) \<in> fst ` set (map (\<lambda>i. (item_id (its ! i), i)) [Suc r..<length its])"
    then obtain i where "i \<in> set [Suc r..<length its]" and "item_id (its ! r) = item_id (its ! i)"
      by (auto simp del: set_upt)
    with later [of i] show False by simp
  qed
  then show ?thesis
    unfolding itemMap_def split map_append list.map by (rule fold_upd_last)
qed

lemma itemMap_Some_last:
  assumes "itemMap its n = Some r" and "r < j" and "j < length its"
  shows "item_id (its ! j) \<noteq> n"
proof -
  let ?es = "map (\<lambda>i. (item_id (its ! i), i)) [0..<length its]"
  from assms(1) fold_upd_Some_last [of ?es Map.empty n r]
  obtain pre post where es: "?es = pre @ (n, r) # post" and post: "n \<notin> fst ` set post"
    unfolding itemMap_def by auto
  have len: "length ?es = length its" by simp
  have at: "\<And>i. i < length its \<Longrightarrow> ?es ! i = (item_id (its ! i), i)" by simp
  have p: "length pre < length its" using es len by (metis length_append length_Cons less_add_Suc1 add_Suc_right)
  have "?es ! length pre = (n, r)" unfolding es by simp
  with at [OF p] have r: "r = length pre" by simp
  have "?es ! j = post ! (j - Suc r)"
    unfolding es using assms(2) r by (simp add: nth_append)
  moreover have "j - Suc r < length post"
    using assms(2,3) r len unfolding es by (metis add_Suc_right length_Cons length_append less_diff_conv2 Suc_leI add.commute)
  ultimately have "?es ! j \<in> set post" by (metis nth_mem)
  then have "fst (?es ! j) \<in> fst ` set post" by (rule imageI)
  then have "item_id (its ! j) \<in> fst ` set post" using at [OF assms(3)] by simp
  with post show ?thesis by auto
qed

lemma map_get_last:
  assumes "r < length its"
    and "\<forall>j. r < j \<and> j < length its \<longrightarrow> item_id (its ! j) \<noteq> item_id (its ! r)"
  shows "map_get (itemMap its) (JNum (item_id (its ! r))) = Some r"
  using itemMap_last [OF assms] by simp

lemma map_get_shadowed:
  assumes "r < j" and "j < length its" and "item_id (its ! j) = item_id (its ! r)"
  shows "map_get (itemMap its) v \<noteq> Some r"
proof
  assume h: "map_get (itemMap its) v = Some r"
  then have "v = JNum (item_id (its ! r))" by (auto dest: map_get_itemMap_Some)
  with h have "itemMap its (item_id (its ! r)) = Some r" by simp
  from itemMap_Some_last [OF this assms(1,2)] assms(3) show False by simp
qed

section \<open>Reordering\<close>

text \<open>
  Claim C1. For every list and every \<open>orderedIds\<close>: an item after which no item of the
  list has the same id (every item, in a list whose ids are distinct) and whose id is an
  element of \<open>orderedIds\<close> gets the zero-based index of that element as its position;
  where the id occurs more than once in \<open>orderedIds\<close> the last occurrence counts, since
  the loop assigns at every occurrence. The elements in front of it (\<open>pre\<close>) are
  arbitrary, so an id that matches no item still takes up its index; and processing such
  an id changes nothing: the list after \<open>ids @ [v]\<close> is the list after \<open>ids\<close>. An item
  that shares its id with a later item of the list is not the one that the map holds for
  that id, and reorder leaves it as it is.
\<close>

theorem reorder_assigns_index:
  "(r < length its \<and>
    (\<forall>j. r < j \<and> j < length its \<longrightarrow> item_id (its ! j) \<noteq> item_id (its ! r)) \<and>
    JNum (item_id (its ! r)) \<notin> set post \<longrightarrow>
      item_id (reorder its (pre @ JNum (item_id (its ! r)) # post) ! r) = item_id (its ! r) \<and>
      position (reorder its (pre @ JNum (item_id (its ! r)) # post) ! r) = int (length pre)) \<and>
   (r < j \<and> j < length its \<and> item_id (its ! j) = item_id (its ! r) \<longrightarrow>
      reorder its ids ! r = its ! r) \<and>
   ((\<forall>it\<in>set its. v \<noteq> JNum (item_id it)) \<longrightarrow>
      reorder its (ids @ [v]) = reorder its ids)"
proof (intro conjI impI)
  assume h: "r < length its \<and>
    (\<forall>j. r < j \<and> j < length its \<longrightarrow> item_id (its ! j) \<noteq> item_id (its ! r)) \<and>
    JNum (item_id (its ! r)) \<notin> set post"
  let ?v = "JNum (item_id (its ! r))"
  have hit: "map_get (itemMap its) ?v = Some r"
    using h by (intro map_get_last) simp_all
  have "\<forall>w\<in>set post. map_get (itemMap its) w \<noteq> Some r"
    using h by (auto dest: map_get_itemMap_Some)
  with hit have "last_hit (itemMap its) (pre @ ?v # post) 0 r = Some (int (length pre))"
    using last_hit_last_occurrence [of "itemMap its" ?v r post pre 0] by simp
  then have nth: "reorder its (pre @ ?v # post) ! r = (its ! r)\<lparr>position := int (length pre)\<rparr>"
    using h by (simp add: reorder_def forEach_nth)
  show "item_id (reorder its (pre @ ?v # post) ! r) = item_id (its ! r)"
    by (simp add: nth)
  show "position (reorder its (pre @ ?v # post) ! r) = int (length pre)"
    by (simp add: nth)
next
  assume h: "r < j \<and> j < length its \<and> item_id (its ! j) = item_id (its ! r)"
  then have "r < j" and "j < length its" and "item_id (its ! j) = item_id (its ! r)"
    by simp_all
  then have "\<forall>w\<in>set ids. map_get (itemMap its) w \<noteq> Some r"
    by (intro ballI map_get_shadowed [of r j its])
  then have "last_hit (itemMap its) ids 0 r = None"
    by (rule last_hit_None)
  then show "reorder its ids ! r = its ! r"
    using h by (simp add: reorder_def forEach_nth)
next
  assume "\<forall>it\<in>set its. v \<noteq> JNum (item_id it)"
  then have "map_get (itemMap its) v = None"
    by (cases "map_get (itemMap its) v") (auto dest!: map_get_itemMap_Some)
  then show "reorder its (ids @ [v]) = reorder its ids"
    by (simp add: reorder_def forEach_append)
qed

theorem reorder_assigns_index_witness:
  "position (reorder [apples, pears, plums] [JNum 2, JNum 7, JNum 1, JNum 7] ! 1) = 2 \<and>
   position (reorder [apples, pears, plums] [JNum 2, JNum 7, JNum 1, JNum 7] ! 2) = 0 \<and>
   reorder [apples, pears, plums] [JNum 2, JNum 7, JNum 1, JNum 7] ! 0 = apples \<and>
   reorder [apples, pears, plums] ([JNum 2] @ [JNum 7]) = reorder [apples, pears, plums] [JNum 2]"
proof -
  let ?its = "[apples, pears, plums]"
  have a: "(1::nat) < length ?its" by simp
  have b: "\<forall>j. 1 < j \<and> j < length ?its \<longrightarrow> item_id (?its ! j) \<noteq> item_id (?its ! 1)"
  proof (intro allI impI)
    fix j assume "1 < j \<and> j < length ?its"
    then have "j = 2" by simp
    then show "item_id (?its ! j) \<noteq> item_id (?its ! 1)"
      by (simp add: pears_def plums_def)
  qed
  have c: "JNum (item_id (?its ! 1)) \<notin> set [JNum 7]" by (simp add: pears_def)
  have d: "(0::nat) < 1 \<and> (1::nat) < length ?its \<and> item_id (?its ! 1) = item_id (?its ! 0)"
    by (simp add: apples_def pears_def)
  have e: "\<forall>it\<in>set ?its. JNum 7 \<noteq> JNum (item_id it)"
    by (simp add: apples_def pears_def plums_def)
  have f: "item_id (?its ! 1) = 1" by (simp add: pears_def)
  note t = reorder_assigns_index [where its = ?its and r = 1 and pre = "[JNum 2, JNum 7]"
      and post = "[JNum 7]" and j = 2 and v = "JNum 7" and ids = "[JNum 2]"]
  from t a b c have "position (reorder ?its ([JNum 2, JNum 7] @ JNum (item_id (?its ! 1)) # [JNum 7]) ! 1) = 2"
    by simp
  then have 1: "position (reorder ?its [JNum 2, JNum 7, JNum 1, JNum 7] ! 1) = 2"
    unfolding f by simp
  from reorder_assigns_index [where its = ?its and r = 0 and j = 1
      and ids = "[JNum 2, JNum 7, JNum 1, JNum 7]"] d
  have 2: "reorder ?its [JNum 2, JNum 7, JNum 1, JNum 7] ! 0 = apples" by simp
  from t e have 3: "reorder ?its ([JNum 2] @ [JNum 7]) = reorder ?its [JNum 2]" by blast
  have "\<forall>j. 2 < j \<and> j < length ?its \<longrightarrow> item_id (?its ! j) \<noteq> item_id (?its ! 2)"
    by simp
  with reorder_assigns_index [where its = ?its and r = 2 and pre = "[]"
      and post = "[JNum 7, JNum 1, JNum 7]" and j = 0 and v = "JNum 7" and ids = "[]"]
  have "position (reorder ?its ([] @ JNum (item_id (?its ! 2)) # [JNum 7, JNum 1, JNum 7]) ! 2) = 0"
    by (simp add: plums_def)
  then have 4: "position (reorder ?its [JNum 2, JNum 7, JNum 1, JNum 7] ! 2) = 0"
    by (simp add: plums_def)
  from 1 2 3 4 show ?thesis by blast
qed

text \<open>
  The claim as it is worded, for every item whose id occurs in \<open>orderedIds\<close>, fails on
  a list with a repeated id: the first of the two items with id 1 keeps its position 5,
  though its id is the element of index 1.
\<close>

theorem reorder_assigns_index_counterexample:
  "JNum (item_id ([apples, pears, plums] ! 0)) = [JNum 2, JNum 1] ! 1 \<and>
   position (reorder [apples, pears, plums] [JNum 2, JNum 1] ! 0) \<noteq> 1 \<and>
   map position (reorder [apples, pears, plums] [JNum 2, JNum 1]) = [5, 1, 0]"
  by (simp add: reorder_def itemMap_def apples_def pears_def plums_def)

text \<open>
  Claim C2. Reorder keeps the number of items and the id, name and checked flag of every
  item, and an item whose id is no element of \<open>orderedIds\<close> is the same item afterwards,
  its position included. This holds for every list, also one with repeated ids.
\<close>

theorem reorder_frame:
  "length (reorder its ids) = length its \<and>
   (\<forall>r<length its.
      item_id (reorder its ids ! r) = item_id (its ! r) \<and>
      item_name (reorder its ids ! r) = item_name (its ! r) \<and>
      checked (reorder its ids ! r) = checked (its ! r) \<and>
      (JNum (item_id (its ! r)) \<notin> set ids \<longrightarrow> reorder its ids ! r = its ! r))"
proof (intro conjI allI impI)
  show "length (reorder its ids) = length its"
    by (simp add: reorder_def length_forEach)
next
  fix r assume r: "r < length its"
  then show "item_id (reorder its ids ! r) = item_id (its ! r)"
    by (simp add: reorder_def forEach_nth split: option.splits)
  from r show "item_name (reorder its ids ! r) = item_name (its ! r)"
    by (simp add: reorder_def forEach_nth split: option.splits)
  from r show "checked (reorder its ids ! r) = checked (its ! r)"
    by (simp add: reorder_def forEach_nth split: option.splits)
  assume "JNum (item_id (its ! r)) \<notin> set ids"
  then have "\<forall>v\<in>set ids. map_get (itemMap its) v \<noteq> Some r"
    by (auto dest: map_get_itemMap_Some)
  then have "last_hit (itemMap its) ids 0 r = None"
    by (rule last_hit_None)
  then show "reorder its ids ! r = its ! r"
    using r by (simp add: reorder_def forEach_nth)
qed

theorem reorder_frame_witness:
  "(1::nat) < length [milk, bread] \<and> JNum (item_id ([milk, bread] ! 1)) \<notin> set [JNum 1, JNum 5] \<and>
   length (reorder [milk, bread] [JNum 1, JNum 5]) = 2 \<and>
   reorder [milk, bread] [JNum 1, JNum 5] ! 1 = bread \<and>
   item_name (reorder [milk, bread] [JNum 5, JNum 1] ! 0) = item_name milk \<and>
   position (reorder [milk, bread] [JNum 5, JNum 1] ! 0) = 1"
proof -
  have a: "(1::nat) < length [milk, bread]" by simp
  have b: "(0::nat) < length [milk, bread]" by simp
  have c: "JNum (item_id ([milk, bread] ! 1)) \<notin> set [JNum 1, JNum 5]"
    by (simp add: bread_def)
  have p: "position (reorder [milk, bread] [JNum 5, JNum 1] ! 0) = 1"
    by (simp add: reorder_def itemMap_def milk_def bread_def)
  from reorder_frame [of "[milk, bread]" "[JNum 1, JNum 5]"] a c
  have "length (reorder [milk, bread] [JNum 1, JNum 5]) = 2 \<and>
        reorder [milk, bread] [JNum 1, JNum 5] ! 1 = bread"
    by simp
  moreover from reorder_frame [of "[milk, bread]" "[JNum 5, JNum 1]"] b
  have "item_name (reorder [milk, bread] [JNum 5, JNum 1] ! 0) = item_name milk"
    by simp
  ultimately show ?thesis using a c p by simp
qed

text \<open>
  Claim C6. Reordering twice with the same \<open>orderedIds\<close> gives the list that reordering
  once gives. The positions that reorder assigns do not depend on the positions before:
  for two lists with the same ids in the same order, reorder either gives the items at
  an index the same position, or leaves both as they were.
\<close>

theorem reorder_idempotent:
  "reorder (reorder its ids) ids = reorder its ids \<and>
   (map item_id its' = map item_id its \<and> r < length its \<longrightarrow>
      position (reorder its' ids ! r) = position (reorder its ids ! r) \<or>
      reorder its' ids ! r = its' ! r \<and> reorder its ids ! r = its ! r)"
proof (intro conjI impI)
  show "reorder (reorder its ids) ids = reorder its ids" by (rule reorder_idem)
next
  assume "map item_id its' = map item_id its \<and> r < length its"
  then have ids: "map item_id its' = map item_id its" and r: "r < length its" by simp_all
  have m: "itemMap its' = itemMap its" using ids by (rule itemMap_cong)
  have r': "r < length its'" using ids r by (metis length_map)
  show "position (reorder its' ids ! r) = position (reorder its ids ! r) \<or>
        reorder its' ids ! r = its' ! r \<and> reorder its ids ! r = its ! r"
    using r r' by (simp add: reorder_def m forEach_nth split: option.splits)
qed

theorem reorder_idempotent_witness:
  "map item_id [milk\<lparr>position := 40\<rparr>, bread\<lparr>position := 30\<rparr>] = map item_id [milk, bread] \<and>
   reorder (reorder [milk, bread] [JNum 2, JNum 1]) [JNum 2, JNum 1] = reorder [milk, bread] [JNum 2, JNum 1] \<and>
   map position (reorder [milk, bread] [JNum 2, JNum 1]) = [1, 0] \<and>
   (position (reorder [milk\<lparr>position := 40\<rparr>, bread\<lparr>position := 30\<rparr>] [JNum 2, JNum 1] ! 0) =
      position (reorder [milk, bread] [JNum 2, JNum 1] ! 0))"
proof -
  have e: "map item_id [milk\<lparr>position := 40\<rparr>, bread\<lparr>position := 30\<rparr>] = map item_id [milk, bread]"
    by simp
  have p: "map position (reorder [milk, bread] [JNum 2, JNum 1]) = [1, 0]"
    by (simp add: reorder_def itemMap_def milk_def bread_def)
  have q: "reorder [milk, bread] [JNum 2, JNum 1] ! 0 \<noteq> [milk, bread] ! 0"
    by (simp add: reorder_def itemMap_def milk_def bread_def)
  from reorder_idempotent [of "[milk, bread]" "[JNum 2, JNum 1]"
      "[milk\<lparr>position := 40\<rparr>, bread\<lparr>position := 30\<rparr>]" 0] e q
  have "reorder (reorder [milk, bread] [JNum 2, JNum 1]) [JNum 2, JNum 1] = reorder [milk, bread] [JNum 2, JNum 1] \<and>
     position (reorder [milk\<lparr>position := 40\<rparr>, bread\<lparr>position := 30\<rparr>] [JNum 2, JNum 1] ! 0) =
      position (reorder [milk, bread] [JNum 2, JNum 1] ! 0)"
    by simp
  then show ?thesis using e p by simp
qed

section \<open>The store and the routes\<close>

lemma readDatabase_Stored: "content st = Stored db \<Longrightarrow> readDatabase st = (Inr db, st)"
  by (simp add: readDatabase_def)

lemma readDatabase_Inr:
  "readDatabase st = (Inr db, st1) \<Longrightarrow> content st1 = Stored db \<and> writable st1 = writable st"
  by (auto simp: readDatabase_def writeDatabase_def split: file_state.splits if_splits)

lemma writeDatabase_writable:
  "writable st \<Longrightarrow> writeDatabase db st = (Inr (), st\<lparr>content := Stored db\<rparr>)"
  by (simp add: writeDatabase_def)

text \<open>
  Sums: exact on the safe integers, rounded at \<open>2^53\<close>.
\<close>

lemma round_double_examples:
  "round_double 9007199254740993 = 9007199254740992 \<and>
   round_double 9007199254740994 = 9007199254740994 \<and>
   round_double 9007199254740995 = 9007199254740996 \<and>
   round_double 18014398509481985 = 18014398509481984 \<and>
   round_double 18014398509481986 = 18014398509481984 \<and>
   round_double 18014398509481987 = 18014398509481988 \<and>
   round_double (- 9007199254740993) = - 9007199254740992"
  by (simp add: round_double_def Let_def bit_length.simps)

lemma bit_length_2_53: "bit_length 9007199254740992 = 54"
  by (simp add: bit_length.simps)

lemma bit_length_2_53_1: "bit_length 9007199254740993 = 54"
  by (simp add: bit_length.simps)

lemma round_double_small: "\<bar>x\<bar> < 2 ^ 53 \<Longrightarrow> round_double x = x"
proof -
  assume "\<bar>x\<bar> < 2 ^ 53"
  then have "nat \<bar>x\<bar> < 2 ^ 53" by simp
  then show ?thesis unfolding round_double_def Let_def by (simp only: if_True)
qed

lemma round_double_2_53: "round_double 9007199254740992 = 9007199254740992"
  by (simp add: round_double_def Let_def bit_length_2_53)

lemma add_one_2_53: "add_one 9007199254740992 = 9007199254740992"
  by (simp add: add_one_def round_double_def Let_def bit_length_2_53_1)

lemma add_one_safe: "safe_integer m \<Longrightarrow> add_one m = m + 1"
proof -
  assume "safe_integer m"
  then have m: "\<bar>m\<bar> < 9007199254740992" by (simp add: safe_integer_def)
  show ?thesis
  proof (cases "m + 1 = 9007199254740992")
    case True
    then show ?thesis by (simp add: add_one_def round_double_2_53)
  next
    case False
    with m have "\<bar>m + 1\<bar> < 2 ^ 53" by simp
    then show ?thesis unfolding add_one_def by (rule round_double_small)
  qed
qed

text \<open>
  The routes that create, when they create: the new id and position, the trimmed name,
  and the document written.
\<close>

lemma math_max_Max:
  "xs \<noteq> [] \<Longrightarrow> length xs \<le> lim \<Longrightarrow> math_max lim (map f xs) = Inr (Max (f ` set xs))"
proof (cases xs)
  case Nil
  assume "xs \<noteq> []"
  with Nil show ?thesis by simp
next
  case (Cons y ys)
  assume "length xs \<le> lim"
  then have len: "\<not> lim < Suc (length ys)" using Cons by simp
  have "Max (set (f y # map f ys)) = fold max (map f ys) (f y)"
    by (rule Max.set_eq_fold)
  then show ?thesis using Cons len by simp
qed

lemma math_max_Inr:
  "xs \<noteq> [] \<Longrightarrow> math_max lim (map f xs) = Inr m \<Longrightarrow> length xs \<le> lim \<and> m = Max (f ` set xs)"
proof -
  assume ne: "xs \<noteq> []" and r: "math_max lim (map f xs) = Inr m"
  from ne obtain y ys where xs: "xs = y # ys" by (cases xs) auto
  from r have len: "length xs \<le> lim" unfolding xs by (simp split: if_splits)
  from math_max_Max [OF ne len, of f] r show ?thesis using len by simp
qed

lemma newId_within:
  "length ls \<le> lim \<Longrightarrow>
   newId lim ls = Inr (if ls = [] then 1 else add_one (Max (list_id ` set ls)))"
  by (simp add: newId_def math_max_Max)

lemma newItemId_within:
  "length its \<le> lim \<Longrightarrow>
   newItemId lim its = Inr (if its = [] then 1 else add_one (Max (item_id ` set its)))"
  by (simp add: newItemId_def math_max_Max)

lemma newPosition_within:
  "length its \<le> lim \<Longrightarrow>
   newPosition lim its = Inr (if its = [] then 0 else add_one (Max (position ` set its)))"
  by (simp add: newPosition_def math_max_Max)

lemma newId_Inr:
  "newId lim ls = Inr n \<Longrightarrow> n = (if ls = [] then 1 else add_one (Max (list_id ` set ls)))"
  by (auto simp: newId_def split: if_splits sum.splits dest: math_max_Inr)

lemma newItemId_Inr:
  "newItemId lim its = Inr n \<Longrightarrow> n = (if its = [] then 1 else add_one (Max (item_id ` set its)))"
  by (auto simp: newItemId_def split: if_splits sum.splits dest: math_max_Inr)


lemma name_trim_Inr: "name_trim name = Inr t \<Longrightarrow> \<exists>s. name = JStr s \<and> t = trim s"
  by (cases name) auto

lemma post_lists_created:
  assumes "readDatabase st = (Inr db, st1)" and "writable st" and "trim s \<noteq> []"
    and "length (lists db) \<le> lim"
  shows "\<exists>l. post_lists lim (JStr s) st =
           (Response 201 (ListBody l), st1\<lparr>content := Stored (db\<lparr>lists := lists db @ [l]\<rparr>)\<rparr>) \<and>
         list_id l = (if lists db = [] then 1 else add_one (Max (list_id ` set (lists db)))) \<and>
         list_name l = trim s \<and> items l = []"
proof -
  have "s \<noteq> []" using assms(3) by (auto simp: trim_def)
  then show ?thesis
    using assms readDatabase_Inr [OF assms(1)]
    by (simp add: post_lists_def newId_within writeDatabase_writable Let_def)
qed

lemma post_groceries_created:
  assumes "readDatabase st = (Inr db, st1)" and "writable st"
    and "find_list (lists db) listId = Some ix" and "length (items (lists db ! ix)) \<le> lim"
  shows "\<exists>it. post_groceries lim listId (JStr s) st =
           (Response 201 (ItemBody it),
            st1\<lparr>content := Stored (db\<lparr>lists := (lists db)[ix := (lists db ! ix)\<lparr>items :=
              items (lists db ! ix) @ [it]\<rparr>]\<rparr>)\<rparr>) \<and>
         item_id it = (if items (lists db ! ix) = [] then 1
                       else add_one (Max (item_id ` set (items (lists db ! ix))))) \<and>
         position it = (if items (lists db ! ix) = [] then 0
                        else add_one (Max (position ` set (items (lists db ! ix))))) \<and>
         item_name it = trim s \<and> checked it = False"
  using assms readDatabase_Inr [OF assms(1)]
  by (simp add: post_groceries_def newItemId_within newPosition_within
      writeDatabase_writable Let_def)

lemma post_lists_201:
  assumes "post_lists lim name st = (Response 201 (ListBody l), st')"
  shows "\<exists>s db st1. name = JStr s \<and> readDatabase st = (Inr db, st1) \<and>
           content st' = Stored (db\<lparr>lists := lists db @ [l]\<rparr>) \<and>
           newId lim (lists db) = Inr (list_id l) \<and> list_name l = trim s \<and> items l = []"
  using assms
  by (auto simp: post_lists_def writeDatabase_def Let_def
      split: if_splits sum.splits prod.splits dest!: name_trim_Inr)

lemma post_groceries_201:
  assumes "post_groceries lim listId name st = (Response 201 (ItemBody it), st')"
  shows "\<exists>s db st1 ix. name = JStr s \<and> readDatabase st = (Inr db, st1) \<and>
           find_list (lists db) listId = Some ix \<and>
           content st' = Stored (db\<lparr>lists := (lists db)[ix := (lists db ! ix)\<lparr>items :=
              items (lists db ! ix) @ [it]\<rparr>]\<rparr>) \<and>
           newItemId lim (items (lists db ! ix)) = Inr (item_id it) \<and>
           newPosition lim (items (lists db ! ix)) = Inr (position it) \<and>
           item_name it = trim s \<and> checked it = False"
  using assms
  by (auto simp: post_groceries_def writeDatabase_def Let_def
      split: if_splits sum.splits prod.splits option.splits dest!: name_trim_Inr)

lemma shop_read: "readDatabase shop = (Inr \<lparr>lists = [groceries]\<rparr>, shop)"
  by (simp add: readDatabase_def shop_def)

lemma shop_find: "find_list (lists \<lparr>lists = [groceries]\<rparr>) (Some 1) = Some 0"
  by (simp add: find_list_def groceries_def)

lemma shop_post_lists:
  "post_lists 65535 (JStr [0x74, 0x65, 0x61]) shop =
     (Response 201 (ListBody \<lparr>list_id = 2, list_name = [0x74, 0x65, 0x61], items = []\<rparr>),
      shop\<lparr>content := Stored \<lparr>lists = [groceries,
        \<lparr>list_id = 2, list_name = [0x74, 0x65, 0x61], items = []\<rparr>]\<rparr>\<rparr>)"
  by (simp add: post_lists_def readDatabase_def writeDatabase_def newId_def add_one_def
      round_double_def trim_def is_white_def Let_def shop_def groceries_def)

lemma shop_post_groceries:
  "post_groceries 65535 (Some 1) (JStr [0x74, 0x65, 0x61]) shop =
     (Response 201 (ItemBody \<lparr>item_id = 3, item_name = [0x74, 0x65, 0x61], checked = False,
                               position = 2\<rparr>),
      shop\<lparr>content := Stored \<lparr>lists = [groceries\<lparr>items := [milk, bread,
        \<lparr>item_id = 3, item_name = [0x74, 0x65, 0x61], checked = False, position = 2\<rparr>]\<rparr>]\<rparr>\<rparr>)"
  by (simp add: post_groceries_def readDatabase_def writeDatabase_def find_list_def
      newItemId_def newPosition_def add_one_def round_double_def trim_def is_white_def Let_def
      shop_def groceries_def milk_def bread_def)

text \<open>
  The reorder and the listing routes, on a store whose load gives a document: they apply
  \<open>reorder\<close> and \<open>listItems\<close> to the items of the list found.
\<close>

lemma post_reorder_done:
  assumes "readDatabase st = (Inr db, st1)" and "writable st"
    and "find_list (lists db) listId = Some ix"
  shows "post_reorder listId (JArr ids) st =
     (Response 200 (Message ''List reordered successfully.''),
      st1\<lparr>content := Stored (db\<lparr>lists := (lists db)[ix := (lists db ! ix)\<lparr>items :=
              reorder (items (lists db ! ix)) ids\<rparr>]\<rparr>)\<rparr>)"
  using assms readDatabase_Inr [OF assms(1)]
  by (simp add: post_reorder_def writeDatabase_writable Let_def)

lemma post_reorder_not_array:
  "\<forall>ids. orderedIds \<noteq> JArr ids \<Longrightarrow>
   post_reorder listId orderedIds st = (Response 400 (Message ''orderedIds must be an array.''), st)"
  by (cases orderedIds) (simp_all add: post_reorder_def)

lemma get_groceries_found:
  assumes "readDatabase st = (Inr db, st1)" and "find_list (lists db) listId = Some ix"
  shows "get_groceries listId st = (Response 200 (Items (listItems (items (lists db ! ix)))), st1)"
  using assms by (simp add: get_groceries_def)

lemma scenario_reorder_then_list:
  "listItems (reorder [milk, bread] [JNum 2, JNum 1]) =
     [bread\<lparr>position := 0\<rparr>, milk\<lparr>position := 1\<rparr>]"
  by (simp add: listItems_def reorder_def itemMap_def milk_def bread_def)

section \<open>Listing\<close>

lemma sort_insert_insort_key:
  "sort_insert (\<lambda>a b. f a - f b) x ys = insort_key f x ys" for f :: "'a \<Rightarrow> int"
  by (induction ys) auto

lemma array_sort_sort_key:
  "array_sort (\<lambda>a b. f a - f b) xs = sort_key f xs" for f :: "'a \<Rightarrow> int"
  by (induction xs) (auto simp: sort_insert_insort_key)

text \<open>
  Claim C5. The items that \<^verbatim>\<open>GET /lists/:listId/groceries\<close> sends are the items of
  the list (the same multiset), in ascending order of position, and the sort is stable:
  for every position \<open>p\<close>, the items at position \<open>p\<close> come in the order of storage.
\<close>

theorem listItems_sorted_stable:
  "sorted (map position (listItems its)) \<and>
   mset (listItems its) = mset its \<and>
   filter (\<lambda>x. position x = p) (listItems its) = filter (\<lambda>x. position x = p) its"
  unfolding listItems_def array_sort_sort_key
  by (simp add: sort_key_stable)

theorem listItems_sorted_stable_witness:
  "listItems [bread, milk\<lparr>position := 1\<rparr>, milk] = [milk, bread, milk\<lparr>position := 1\<rparr>] \<and>
   sorted (map position (listItems [bread, milk\<lparr>position := 1\<rparr>, milk])) \<and>
   filter (\<lambda>x. position x = 1) (listItems [bread, milk\<lparr>position := 1\<rparr>, milk]) =
     [bread, milk\<lparr>position := 1\<rparr>]"
  using listItems_sorted_stable [of "[bread, milk\<lparr>position := 1\<rparr>, milk]" 1]
  by (simp add: listItems_def milk_def bread_def)

section \<open>Allocation of ids and positions\<close>

text \<open>
  Claim C7. Creating a list gives it the id 1 when the document has no list, and the
  greatest list id plus 1 when that greatest id is a safe integer (below \<open>2^53\<close> in
  magnitude, so that the sum is exact); adding an item to a list gives it the id 1 when
  the list has no item, and the greatest item id of the list plus 1 when that is a safe
  integer. The route creates (answers 201, with the new entity appended in the document
  written) when the load gives a document, the name is accepted, the collection has no
  more elements than the engine takes as arguments and the write is accepted; and
  whenever it answers 201, the id is as said.
\<close>

theorem id_allocation:
  "(readDatabase st = (Inr db, st1) \<and> writable st \<and> trim s \<noteq> [] \<and>
    length (lists db) \<le> lim \<and>
    (lists db = [] \<or> safe_integer (Max (list_id ` set (lists db)))) \<longrightarrow>
      (\<exists>l st'. post_lists lim (JStr s) st = (Response 201 (ListBody l), st') \<and>
         content st' = Stored (db\<lparr>lists := lists db @ [l]\<rparr>) \<and>
         list_id l = (if lists db = [] then 1 else Max (list_id ` set (lists db)) + 1))) \<and>
   (readDatabase st = (Inr db, st1) \<and> writable st \<and> find_list (lists db) listId = Some ix \<and>
    length (items (lists db ! ix)) \<le> lim \<and>
    (items (lists db ! ix) = [] \<or> safe_integer (Max (item_id ` set (items (lists db ! ix))))) \<longrightarrow>
      (\<exists>it st'. post_groceries lim listId (JStr s) st = (Response 201 (ItemBody it), st') \<and>
         content st' = Stored (db\<lparr>lists := (lists db)[ix := (lists db ! ix)\<lparr>items :=
              items (lists db ! ix) @ [it]\<rparr>]\<rparr>) \<and>
         item_id it = (if items (lists db ! ix) = [] then 1
                       else Max (item_id ` set (items (lists db ! ix))) + 1))) \<and>
   (post_lists lim name st = (Response 201 (ListBody l), st') \<and>
    readDatabase st = (Inr db, st1) \<and>
    (lists db = [] \<or> safe_integer (Max (list_id ` set (lists db)))) \<longrightarrow>
      list_id l = (if lists db = [] then 1 else Max (list_id ` set (lists db)) + 1)) \<and>
   (post_groceries lim listId name st = (Response 201 (ItemBody it), st') \<and>
    readDatabase st = (Inr db, st1) \<and> find_list (lists db) listId = Some ix \<and>
    (items (lists db ! ix) = [] \<or> safe_integer (Max (item_id ` set (items (lists db ! ix))))) \<longrightarrow>
      item_id it = (if items (lists db ! ix) = [] then 1
                    else Max (item_id ` set (items (lists db ! ix))) + 1))"
proof (intro conjI impI)
  assume h: "readDatabase st = (Inr db, st1) \<and> writable st \<and> trim s \<noteq> [] \<and>
    length (lists db) \<le> lim \<and>
    (lists db = [] \<or> safe_integer (Max (list_id ` set (lists db))))"
  then have "readDatabase st = (Inr db, st1)" "writable st" "trim s \<noteq> []"
    "length (lists db) \<le> lim"
    by simp_all
  from post_lists_created [OF this] h
  show "\<exists>l st'. post_lists lim (JStr s) st = (Response 201 (ListBody l), st') \<and>
         content st' = Stored (db\<lparr>lists := lists db @ [l]\<rparr>) \<and>
         list_id l = (if lists db = [] then 1 else Max (list_id ` set (lists db)) + 1)"
    by (auto simp: add_one_safe)
next
  assume h: "readDatabase st = (Inr db, st1) \<and> writable st \<and>
    find_list (lists db) listId = Some ix \<and> length (items (lists db ! ix)) \<le> lim \<and>
    (items (lists db ! ix) = [] \<or> safe_integer (Max (item_id ` set (items (lists db ! ix)))))"
  then have "readDatabase st = (Inr db, st1)" "writable st"
    "find_list (lists db) listId = Some ix" "length (items (lists db ! ix)) \<le> lim"
    by simp_all
  from post_groceries_created [OF this, of s] h
  show "\<exists>it st'. post_groceries lim listId (JStr s) st = (Response 201 (ItemBody it), st') \<and>
         content st' = Stored (db\<lparr>lists := (lists db)[ix := (lists db ! ix)\<lparr>items :=
              items (lists db ! ix) @ [it]\<rparr>]\<rparr>) \<and>
         item_id it = (if items (lists db ! ix) = [] then 1
                       else Max (item_id ` set (items (lists db ! ix))) + 1)"
    by (auto simp: add_one_safe)
next
  assume h: "post_lists lim name st = (Response 201 (ListBody l), st') \<and>
    readDatabase st = (Inr db, st1) \<and>
    (lists db = [] \<or> safe_integer (Max (list_id ` set (lists db))))"
  then have "post_lists lim name st = (Response 201 (ListBody l), st')" by simp
  from post_lists_201 [OF this] h have "newId lim (lists db) = Inr (list_id l)" by auto
  from newId_Inr [OF this] h
  show "list_id l = (if lists db = [] then 1 else Max (list_id ` set (lists db)) + 1)"
    by (auto simp: add_one_safe)
next
  assume h: "post_groceries lim listId name st = (Response 201 (ItemBody it), st') \<and>
    readDatabase st = (Inr db, st1) \<and> find_list (lists db) listId = Some ix \<and>
    (items (lists db ! ix) = [] \<or> safe_integer (Max (item_id ` set (items (lists db ! ix)))))"
  then have "post_groceries lim listId name st = (Response 201 (ItemBody it), st')" by simp
  from post_groceries_201 [OF this] h
  have "newItemId lim (items (lists db ! ix)) = Inr (item_id it)" by auto
  from newItemId_Inr [OF this] h
  show "item_id it = (if items (lists db ! ix) = [] then 1
                    else Max (item_id ` set (items (lists db ! ix))) + 1)"
    by (auto simp: add_one_safe)
qed

theorem id_allocation_witness:
  "readDatabase shop = (Inr \<lparr>lists = [groceries]\<rparr>, shop) \<and> writable shop \<and>
   trim [0x74, 0x65, 0x61] \<noteq> [] \<and>
   find_list (lists \<lparr>lists = [groceries]\<rparr>) (Some 1) = Some 0 \<and>
   safe_integer (Max (list_id ` set (lists \<lparr>lists = [groceries]\<rparr>))) \<and>
   safe_integer (Max (item_id ` set (items (lists \<lparr>lists = [groceries]\<rparr> ! 0)))) \<and>
   (\<exists>l st'. post_lists 65535 (JStr [0x74, 0x65, 0x61]) shop = (Response 201 (ListBody l), st') \<and>
      list_id l = 2) \<and>
   (\<exists>it st'. post_groceries 65535 (Some 1) (JStr [0x74, 0x65, 0x61]) shop =
        (Response 201 (ItemBody it), st') \<and> item_id it = 3) \<and>
   list_id \<lparr>list_id = 2, list_name = [0x74, 0x65, 0x61], items = []\<rparr> =
     Max (list_id ` set (lists \<lparr>lists = [groceries]\<rparr>)) + 1 \<and>
   item_id \<lparr>item_id = 3, item_name = [0x74, 0x65, 0x61], checked = False, position = 2\<rparr> =
     Max (item_id ` set (items (lists \<lparr>lists = [groceries]\<rparr> ! 0))) + 1"
proof -
  let ?db = "\<lparr>lists = [groceries]\<rparr>"
  let ?l = "\<lparr>list_id = 2, list_name = [0x74, 0x65, 0x61], items = []\<rparr>"
  let ?it = "\<lparr>item_id = 3, item_name = [0x74, 0x65, 0x61], checked = False, position = 2\<rparr>"
  note a = shop_read and d = shop_find
  have b: "writable shop" by (simp add: shop_def)
  have c: "trim [0x74, 0x65, 0x61] \<noteq> []" by (simp add: trim_def is_white_def)
  have e: "Max (list_id ` set (lists ?db)) = 1" and e': "lists ?db \<noteq> []"
    and e'': "length (lists ?db) \<le> 65535"
    by (simp_all add: groceries_def)
  have f: "Max (item_id ` set (items (lists ?db ! 0))) = 2" and f': "items (lists ?db ! 0) \<noteq> []"
    and f'': "length (items (lists ?db ! 0)) \<le> 65535"
    by (simp_all add: groceries_def milk_def bread_def)
  have g: "safe_integer 1" "safe_integer 2" by (simp_all add: safe_integer_def)
  note t = id_allocation [where st = shop and db = ?db and ?st1.0 = shop
      and s = "[0x74, 0x65, 0x61]" and lim = 65535 and listId = "Some 1" and ix = 0
      and name = "JStr [0x74, 0x65, 0x61]" and l = ?l and it = ?it
      and st' = "shop\<lparr>content := Stored \<lparr>lists = [groceries, ?l]\<rparr>\<rparr>"]
  from t a b c e e' e'' g
  have 1: "\<exists>l st'. post_lists 65535 (JStr [0x74, 0x65, 0x61]) shop = (Response 201 (ListBody l), st') \<and>
      list_id l = 2"
    by auto
  from t a b d f f' f'' g
  have 2: "\<exists>it st'. post_groceries 65535 (Some 1) (JStr [0x74, 0x65, 0x61]) shop =
        (Response 201 (ItemBody it), st') \<and> item_id it = 3"
    by auto
  from t a e e' g shop_post_lists
  have 3: "list_id ?l = Max (list_id ` set (lists ?db)) + 1"
    by simp
  from id_allocation [where st = shop and db = ?db and ?st1.0 = shop and lim = 65535
      and listId = "Some 1" and ix = 0 and name = "JStr [0x74, 0x65, 0x61]" and it = ?it
      and st' = "shop\<lparr>content := Stored \<lparr>lists = [groceries\<lparr>items := [milk, bread, ?it]\<rparr>]\<rparr>\<rparr>"]
    a d f f' g shop_post_groceries
  have 4: "item_id ?it = Max (item_id ` set (items (lists ?db ! 0))) + 1"
    by simp
  from a b c d e f g 1 2 3 4 show ?thesis by simp
qed

text \<open>
  Without the bound the claim fails: where the greatest id is \<open>2^53\<close>, the sum
  \<^verbatim>\<open>Math.max(...) + 1\<close> is \<open>2^53\<close> again, and the new item and the new list
  get the id that is there already.
\<close>

theorem id_allocation_counterexample:
  "fst (post_groceries 65535 (Some 9007199254740992) (JStr [0x74, 0x65, 0x61]) pantry) =
     Response 201 (ItemBody \<lparr>item_id = 9007199254740992, item_name = [0x74, 0x65, 0x61],
       checked = False, position = 9007199254740992\<rparr>) \<and>
   Max (item_id ` set [salt]) + 1 = 9007199254740993 \<and>
   fst (post_lists 65535 (JStr [0x74, 0x65, 0x61]) pantry) =
     Response 201 (ListBody \<lparr>list_id = 9007199254740992, list_name = [0x74, 0x65, 0x61],
       items = []\<rparr>)"
  by (simp add: post_groceries_def post_lists_def readDatabase_def writeDatabase_def
      find_list_def newId_def newItemId_def newPosition_def add_one_2_53 trim_def is_white_def
      Let_def pantry_def salt_def)




section \<open>Names\<close>

lemma dropWhile_trim:
  "dropWhile is_white s = trim s @ rev (takeWhile is_white (rev (dropWhile is_white s)))"
proof -
  define t where "t = dropWhile is_white s"
  have "t = rev (takeWhile is_white (rev t) @ dropWhile is_white (rev t))"
    by (simp only: takeWhile_dropWhile_id rev_rev_ident)
  also have "\<dots> = rev (dropWhile is_white (rev t)) @ rev (takeWhile is_white (rev t))"
    by (rule rev_append)
  finally show ?thesis unfolding trim_def t_def .
qed

lemma trim_decomposition:
  "\<exists>pre post. s = pre @ trim s @ post \<and> (\<forall>c\<in>set pre. is_white c) \<and> (\<forall>c\<in>set post. is_white c)"
proof -
  define post where "post = rev (takeWhile is_white (rev (dropWhile is_white s)))"
  have "s = takeWhile is_white s @ dropWhile is_white s"
    by simp
  then have "s = takeWhile is_white s @ trim s @ post"
    unfolding post_def using dropWhile_trim [of s] by simp
  moreover have "\<forall>c\<in>set (takeWhile is_white s). is_white c"
    by (auto dest: set_takeWhileD)
  moreover have "\<forall>c\<in>set post. is_white c"
    unfolding post_def by (auto dest: set_takeWhileD)
  ultimately show ?thesis by blast
qed

lemma trim_ends:
  assumes "trim s \<noteq> []"
  shows "\<not> is_white (hd (trim s)) \<and> \<not> is_white (last (trim s))"
proof -
  define t where "t = dropWhile is_white s"
  define u where "u = dropWhile is_white (rev t)"
  have tr: "trim s = rev u" by (simp add: trim_def t_def u_def)
  have u: "u \<noteq> []" using assms tr by simp
  then have "\<not> is_white (hd u)" unfolding u_def by (rule hd_dropWhile)
  then have last: "\<not> is_white (last (trim s))" using u tr by (simp add: last_rev)
  have t: "t = trim s @ rev (takeWhile is_white (rev t))"
    unfolding t_def by (rule dropWhile_trim)
  then have "t \<noteq> []" using assms by auto
  then have "\<not> is_white (hd t)" unfolding t_def by (rule hd_dropWhile)
  moreover have "hd t = hd (trim s)" using t assms by (metis hd_append2)
  ultimately show ?thesis using last by simp
qed

text \<open>
  Claim C10. The name of the list that \<^verbatim>\<open>POST /lists\<close> creates from an accepted
  string (one that is not blank), and the name of the item that
  \<^verbatim>\<open>POST /lists/:listId/groceries\<close> creates from a string, is \<^verbatim>\<open>name.trim()\<close>,
  in the response and in the document written: the routes create where the collection
  is within the engine's argument limit, and whenever either route answers 201, for
  whatever request, store and limit, the name it was given is a string and the entity
  returned and written has that string trimmed as its name. The trimmed string is the
  input without a prefix and a suffix of white space, and neither starts nor ends with
  white space.
\<close>

theorem stored_name_trimmed:
  "(readDatabase st = (Inr db, st1) \<and> writable st \<and> trim s \<noteq> [] \<and>
    length (lists db) \<le> lim \<longrightarrow>
      (\<exists>l st'. post_lists lim (JStr s) st = (Response 201 (ListBody l), st') \<and>
         content st' = Stored (db\<lparr>lists := lists db @ [l]\<rparr>) \<and>
         list_name l = trim s)) \<and>
   (readDatabase st = (Inr db, st1) \<and> writable st \<and> find_list (lists db) listId = Some ix \<and>
    length (items (lists db ! ix)) \<le> lim \<longrightarrow>
      (\<exists>it st'. post_groceries lim listId (JStr s) st = (Response 201 (ItemBody it), st') \<and>
         content st' = Stored (db\<lparr>lists := (lists db)[ix := (lists db ! ix)\<lparr>items :=
              items (lists db ! ix) @ [it]\<rparr>]\<rparr>) \<and>
         item_name it = trim s)) \<and>
   (post_lists lim name st = (Response 201 (ListBody l), st') \<longrightarrow>
      (\<exists>s' db' st1'. name = JStr s' \<and> readDatabase st = (Inr db', st1') \<and>
         content st' = Stored (db'\<lparr>lists := lists db' @ [l]\<rparr>) \<and>
         list_name l = trim s')) \<and>
   (post_groceries lim listId name st = (Response 201 (ItemBody it), st') \<longrightarrow>
      (\<exists>s' db' st1' ix'. name = JStr s' \<and> readDatabase st = (Inr db', st1') \<and>
         find_list (lists db') listId = Some ix' \<and>
         content st' = Stored (db'\<lparr>lists := (lists db')[ix' := (lists db' ! ix')\<lparr>items :=
              items (lists db' ! ix') @ [it]\<rparr>]\<rparr>) \<and>
         item_name it = trim s')) \<and>
   (\<exists>pre post. s = pre @ trim s @ post \<and>
      (\<forall>c\<in>set pre. is_white c) \<and> (\<forall>c\<in>set post. is_white c)) \<and>
   (trim s \<noteq> [] \<longrightarrow> \<not> is_white (hd (trim s)) \<and> \<not> is_white (last (trim s)))"
proof (intro conjI impI)
  assume "readDatabase st = (Inr db, st1) \<and> writable st \<and> trim s \<noteq> [] \<and>
    length (lists db) \<le> lim"
  then have "readDatabase st = (Inr db, st1)" "writable st" "trim s \<noteq> []"
    "length (lists db) \<le> lim"
    by simp_all
  from post_lists_created [OF this]
  show "\<exists>l st'. post_lists lim (JStr s) st = (Response 201 (ListBody l), st') \<and>
         content st' = Stored (db\<lparr>lists := lists db @ [l]\<rparr>) \<and> list_name l = trim s"
    by auto
next
  assume "readDatabase st = (Inr db, st1) \<and> writable st \<and>
    find_list (lists db) listId = Some ix \<and> length (items (lists db ! ix)) \<le> lim"
  then have "readDatabase st = (Inr db, st1)" "writable st"
    "find_list (lists db) listId = Some ix" "length (items (lists db ! ix)) \<le> lim"
    by simp_all
  from post_groceries_created [OF this, of s]
  show "\<exists>it st'. post_groceries lim listId (JStr s) st = (Response 201 (ItemBody it), st') \<and>
         content st' = Stored (db\<lparr>lists := (lists db)[ix := (lists db ! ix)\<lparr>items :=
              items (lists db ! ix) @ [it]\<rparr>]\<rparr>) \<and> item_name it = trim s"
    by auto
next
  assume "post_lists lim name st = (Response 201 (ListBody l), st')"
  from post_lists_201 [OF this]
  show "\<exists>s' db' st1'. name = JStr s' \<and> readDatabase st = (Inr db', st1') \<and>
         content st' = Stored (db'\<lparr>lists := lists db' @ [l]\<rparr>) \<and> list_name l = trim s'"
    by blast
next
  assume "post_groceries lim listId name st = (Response 201 (ItemBody it), st')"
  from post_groceries_201 [OF this]
  show "\<exists>s' db' st1' ix'. name = JStr s' \<and> readDatabase st = (Inr db', st1') \<and>
         find_list (lists db') listId = Some ix' \<and>
         content st' = Stored (db'\<lparr>lists := (lists db')[ix' := (lists db' ! ix')\<lparr>items :=
              items (lists db' ! ix') @ [it]\<rparr>]\<rparr>) \<and>
         item_name it = trim s'"
    by blast
next
  show "\<exists>pre post. s = pre @ trim s @ post \<and>
      (\<forall>c\<in>set pre. is_white c) \<and> (\<forall>c\<in>set post. is_white c)"
    by (rule trim_decomposition)
next
  assume "trim s \<noteq> []"
  then have e: "\<not> is_white (hd (trim s)) \<and> \<not> is_white (last (trim s))" by (rule trim_ends)
  from e show "\<not> is_white (hd (trim s))" by simp
  from e show "\<not> is_white (last (trim s))" by simp
qed

theorem stored_name_trimmed_witness:
  "readDatabase shop = (Inr \<lparr>lists = [groceries]\<rparr>, shop) \<and> writable shop \<and>
   trim [0x20, 0x74, 0x65, 0x61, 0x0A] = [0x74, 0x65, 0x61] \<and>
   find_list (lists \<lparr>lists = [groceries]\<rparr>) (Some 1) = Some 0 \<and>
   (\<exists>l st'. post_lists 65535 (JStr [0x20, 0x74, 0x65, 0x61, 0x0A]) shop =
        (Response 201 (ListBody l), st') \<and> list_name l = [0x74, 0x65, 0x61]) \<and>
   (\<exists>it st'. post_groceries 65535 (Some 1) (JStr [0x20, 0x74, 0x65, 0x61, 0x0A]) shop =
        (Response 201 (ItemBody it), st') \<and> item_name it = [0x74, 0x65, 0x61]) \<and>
   (\<exists>s'. JStr [0x74, 0x65, 0x61] = JStr s' \<and> [0x74, 0x65, 0x61] = trim s')"
proof -
  let ?db = "\<lparr>lists = [groceries]\<rparr>"
  note a = shop_read and d = shop_find
  have b: "writable shop" by (simp add: shop_def)
  have c: "trim [0x20, 0x74, 0x65, 0x61, 0x0A] = [0x74, 0x65, 0x61]"
    by (simp add: trim_def is_white_def)
  have e: "length (lists ?db) \<le> 65535" "length (items (lists ?db ! 0)) \<le> 65535"
    by (simp_all add: groceries_def)
  from stored_name_trimmed [where st = shop and db = ?db and ?st1.0 = shop and lim = 65535
      and s = "[0x20, 0x74, 0x65, 0x61, 0x0A]" and listId = "Some 1" and ix = 0
      and name = JNull and l = groceries and it = milk and st' = shop]
  have 1: "(\<exists>l st'. post_lists 65535 (JStr [0x20, 0x74, 0x65, 0x61, 0x0A]) shop =
        (Response 201 (ListBody l), st') \<and> list_name l = [0x74, 0x65, 0x61]) \<and>
   (\<exists>it st'. post_groceries 65535 (Some 1) (JStr [0x20, 0x74, 0x65, 0x61, 0x0A]) shop =
        (Response 201 (ItemBody it), st') \<and> item_name it = [0x74, 0x65, 0x61])"
    unfolding c using a b d e by auto
  have "post_lists 65535 (JStr [0x74, 0x65, 0x61]) shop =
      (Response 201 (ListBody \<lparr>list_id = 2, list_name = [0x74, 0x65, 0x61], items = []\<rparr>),
       shop\<lparr>content := Stored \<lparr>lists = [groceries,
         \<lparr>list_id = 2, list_name = [0x74, 0x65, 0x61], items = []\<rparr>]\<rparr>\<rparr>) \<longrightarrow>
     (\<exists>s'. JStr [0x74, 0x65, 0x61] = JStr s' \<and>
        list_name \<lparr>list_id = 2, list_name = [0x74, 0x65, 0x61], items = []\<rparr> = trim s')"
    using stored_name_trimmed [where st = shop and lim = 65535
      and name = "JStr [0x74, 0x65, 0x61]"
      and l = "\<lparr>list_id = 2, list_name = [0x74, 0x65, 0x61], items = []\<rparr>"
      and st' = "shop\<lparr>content := Stored \<lparr>lists = [groceries,
        \<lparr>list_id = 2, list_name = [0x74, 0x65, 0x61], items = []\<rparr>]\<rparr>\<rparr>"
      and db = ?db and ?st1.0 = shop and s = "[]" and listId = None and ix = 0 and it = milk]
    by blast
  with shop_post_lists
  have 2: "\<exists>s'. JStr [0x74, 0x65, 0x61] = JStr s' \<and> [0x74, 0x65, 0x61] = trim s'"
    by simp
  from 1 2 show ?thesis using a b c d by simp
qed

section \<open>Deleting\<close>

lemma findIndex_cong: "map p xs = map p ys \<Longrightarrow> findIndex p xs = findIndex p ys"
proof (induction xs arbitrary: ys)
  case Nil
  then show ?case by simp
next
  case (Cons x xs)
  then obtain y ys' where ys: "ys = y # ys'" by (cases ys) auto
  with Cons.prems have "p x = p y" and "map p xs = map p ys'" by simp_all
  then show ?case using Cons.IH [of ys'] ys by simp
qed

lemma find_list_update:
  assumes "ix < length ls" and "list_id l = list_id (ls ! ix)"
  shows "find_list (ls[ix := l]) listId = find_list ls listId"
proof -
  have "map (\<lambda>l. Some (list_id l) = listId) (ls[ix := l]) =
        (map (\<lambda>l. Some (list_id l) = listId) ls)[ix := (Some (list_id (ls ! ix)) = listId)]"
    using assms by (simp add: map_update)
  also have "\<dots> = map (\<lambda>l. Some (list_id l) = listId) ls"
    using assms(1) by (intro nth_equalityI) (auto simp: nth_list_update)
  finally show ?thesis unfolding find_list_def by (rule findIndex_cong)
qed

lemma filter_unique_id:
  assumes "f x \<notin> f ` set (pre @ post)"
  shows "filter (\<lambda>y. f y \<noteq> f x) (pre @ x # post) = pre @ post"
proof -
  from assms have "f x \<notin> f ` set pre" and "f x \<notin> f ` set post" by auto
  then have "\<forall>y\<in>set pre. f y \<noteq> f x" and "\<forall>y\<in>set post. f y \<noteq> f x"
    by (metis imageI)+
  then show ?thesis by simp
qed

lemma delete_groceries_absent:
  assumes "readDatabase st = (Inr db, st1)" and "find_list (lists db) listId = Some ix"
    and "\<forall>it\<in>set (items (lists db ! ix)). Some (item_id it) \<noteq> itemId"
  shows "delete_groceries listId itemId st = (Response 404 (Message ''Item not found in list.''), st1)"
proof -
  have "filter (\<lambda>i. Some (item_id i) \<noteq> itemId) (items (lists db ! ix)) = items (lists db ! ix)"
    using assms(3) by simp
  then show ?thesis
    using assms(1,2) by (simp add: delete_groceries_def Let_def)
qed

lemma delete_groceries_present:
  assumes "readDatabase st = (Inr db, st1)" and "writable st"
    and "find_list (lists db) listId = Some ix" and "it \<in> set (items (lists db ! ix))"
  shows "delete_groceries listId (Some (item_id it)) st =
     (Response 204 Empty,
      st1\<lparr>content := Stored (db\<lparr>lists := (lists db)[ix := (lists db ! ix)\<lparr>items :=
         filter (\<lambda>i. item_id i \<noteq> item_id it) (items (lists db ! ix))\<rparr>]\<rparr>)\<rparr>)"
proof -
  have "length (filter (\<lambda>i. item_id i \<noteq> item_id it) (items (lists db ! ix)))
          < length (items (lists db ! ix))"
    using assms(4) by (intro length_filter_less [of it]) auto
  then show ?thesis
    using assms(1,2,3) readDatabase_Inr [OF assms(1)]
    by (simp add: delete_groceries_def writeDatabase_writable Let_def)
qed

lemma fruit_read:
  "readDatabase fruit = (Inr \<lparr>lists = [\<lparr>list_id = 1, list_name = [0x46],
      items = [apples, pears, plums]\<rparr>]\<rparr>, fruit)"
  by (simp add: readDatabase_def fruit_def)

text \<open>
  Claim C9. For every list, on a store that accepts the write: deleting by the id of an
  item of the list answers 204 and writes the list without the items of that id, the
  others in their order; that is exactly the one item when no other item of the list
  has its id, whatever the other ids are. Deleting by the same id again answers 404 and
  leaves the store as it is. Deleting by an id (or by a parameter that is no number)
  that no item of the list has answers 404 and leaves the store as the load left it.
\<close>

theorem delete_item:
  "(readDatabase st = (Inr db, st1) \<and> writable st \<and> find_list (lists db) listId = Some ix \<and>
    it \<in> set (items (lists db ! ix)) \<longrightarrow>
      (\<exists>st'. delete_groceries listId (Some (item_id it)) st = (Response 204 Empty, st') \<and>
         content st' = Stored (db\<lparr>lists := (lists db)[ix := (lists db ! ix)\<lparr>items :=
           filter (\<lambda>i. item_id i \<noteq> item_id it) (items (lists db ! ix))\<rparr>]\<rparr>) \<and>
         delete_groceries listId (Some (item_id it)) st' =
           (Response 404 (Message ''Item not found in list.''), st'))) \<and>
   (readDatabase st = (Inr db, st1) \<and> writable st \<and> find_list (lists db) listId = Some ix \<and>
    items (lists db ! ix) = pre @ it # post \<and> item_id it \<notin> item_id ` set (pre @ post) \<longrightarrow>
      (\<exists>st'. delete_groceries listId (Some (item_id it)) st = (Response 204 Empty, st') \<and>
         content st' = Stored (db\<lparr>lists := (lists db)[ix := (lists db ! ix)\<lparr>items := pre @ post\<rparr>]\<rparr>))) \<and>
   (readDatabase st = (Inr db, st1) \<and> find_list (lists db) listId = Some ix \<and>
    (\<forall>it\<in>set (items (lists db ! ix)). Some (item_id it) \<noteq> itemId) \<longrightarrow>
      delete_groceries listId itemId st = (Response 404 (Message ''Item not found in list.''), st1))"
proof -
  have general: "\<exists>st'. delete_groceries listId (Some (item_id it)) st = (Response 204 Empty, st') \<and>
         content st' = Stored (db\<lparr>lists := (lists db)[ix := (lists db ! ix)\<lparr>items :=
           filter (\<lambda>i. item_id i \<noteq> item_id it) (items (lists db ! ix))\<rparr>]\<rparr>) \<and>
         delete_groceries listId (Some (item_id it)) st' =
           (Response 404 (Message ''Item not found in list.''), st')"
    if c: "readDatabase st = (Inr db, st1)" and w: "writable st"
      and f: "find_list (lists db) listId = Some ix" and m: "it \<in> set (items (lists db ! ix))"
    for it
  proof -
    define rest where "rest = filter (\<lambda>i. item_id i \<noteq> item_id it) (items (lists db ! ix))"
    define db' where "db' = db\<lparr>lists := (lists db)[ix := (lists db ! ix)\<lparr>items := rest\<rparr>]\<rparr>"
    define st' where "st' = st1\<lparr>content := Stored db'\<rparr>"
    have first: "delete_groceries listId (Some (item_id it)) st = (Response 204 Empty, st')"
      using delete_groceries_present [OF c w f m] by (simp add: rest_def st'_def db'_def)
    have ix: "ix < length (lists db)"
      using f unfolding find_list_def by (auto dest: findIndex_Some)
    have f': "find_list (lists db') listId = Some ix"
      using f ix by (simp add: db'_def find_list_update)
    have its': "items (lists db' ! ix) = rest"
      using ix by (simp add: db'_def)
    have gone: "\<forall>y\<in>set (items (lists db' ! ix)). Some (item_id y) \<noteq> Some (item_id it)"
      unfolding its' rest_def by simp
    have c': "content st' = Stored db'" by (simp add: st'_def)
    then have r': "readDatabase st' = (Inr db', st')" by (rule readDatabase_Stored)
    have second: "delete_groceries listId (Some (item_id it)) st' =
        (Response 404 (Message ''Item not found in list.''), st')"
      using r' f' gone by (rule delete_groceries_absent)
    from first c' second show ?thesis unfolding db'_def rest_def by blast
  qed
  show ?thesis
  proof (intro conjI impI)
    assume "readDatabase st = (Inr db, st1) \<and> writable st \<and>
      find_list (lists db) listId = Some ix \<and> it \<in> set (items (lists db ! ix))"
    then show "\<exists>st'. delete_groceries listId (Some (item_id it)) st = (Response 204 Empty, st') \<and>
         content st' = Stored (db\<lparr>lists := (lists db)[ix := (lists db ! ix)\<lparr>items :=
           filter (\<lambda>i. item_id i \<noteq> item_id it) (items (lists db ! ix))\<rparr>]\<rparr>) \<and>
         delete_groceries listId (Some (item_id it)) st' =
           (Response 404 (Message ''Item not found in list.''), st')"
      by (intro general) simp_all
  next
    assume h: "readDatabase st = (Inr db, st1) \<and> writable st \<and>
      find_list (lists db) listId = Some ix \<and>
      items (lists db ! ix) = pre @ it # post \<and> item_id it \<notin> item_id ` set (pre @ post)"
    then have split: "items (lists db ! ix) = pre @ it # post"
      and u: "item_id it \<notin> item_id ` set (pre @ post)"
      by simp_all
    have m: "it \<in> set (items (lists db ! ix))" unfolding split by simp
    have rest: "filter (\<lambda>i. item_id i \<noteq> item_id it) (items (lists db ! ix)) = pre @ post"
      unfolding split using u by (rule filter_unique_id)
    from general [of it] h m
    show "\<exists>st'. delete_groceries listId (Some (item_id it)) st = (Response 204 Empty, st') \<and>
         content st' = Stored (db\<lparr>lists := (lists db)[ix := (lists db ! ix)\<lparr>items := pre @ post\<rparr>]\<rparr>)"
      unfolding rest by blast
  next
    assume "readDatabase st = (Inr db, st1) \<and> find_list (lists db) listId = Some ix \<and>
      (\<forall>it\<in>set (items (lists db ! ix)). Some (item_id it) \<noteq> itemId)"
    then show "delete_groceries listId itemId st =
        (Response 404 (Message ''Item not found in list.''), st1)"
      by (simp add: delete_groceries_absent)
  qed
qed

theorem delete_item_witness:
  "(\<exists>st'. delete_groceries (Some 1) (Some 2) fruit = (Response 204 Empty, st') \<and>
      content st' = Stored \<lparr>lists = [\<lparr>list_id = 1, list_name = [0x46],
        items = [apples, pears]\<rparr>]\<rparr>) \<and>
   (\<exists>st'. delete_groceries (Some 1) (Some 1) fruit = (Response 204 Empty, st') \<and>
      delete_groceries (Some 1) (Some 1) st' =
        (Response 404 (Message ''Item not found in list.''), st')) \<and>
   delete_groceries (Some 1) (Some 9) fruit =
     (Response 404 (Message ''Item not found in list.''), fruit)"
proof -
  let ?l = "\<lparr>list_id = 1, list_name = [0x46], items = [apples, pears, plums]\<rparr>"
  let ?db = "\<lparr>lists = [?l]\<rparr>"
  note a = fruit_read
  have b: "writable fruit" by (simp add: fruit_def)
  have c: "find_list (lists ?db) (Some 1) = Some 0" by (simp add: find_list_def)
  have d: "items (lists ?db ! 0) = [apples, pears] @ plums # []" by simp
  have e: "item_id plums \<notin> item_id ` set ([apples, pears] @ [])"
    by (simp add: apples_def pears_def plums_def)
  have f: "apples \<in> set (items (lists ?db ! 0))" by simp
  have g: "\<forall>it\<in>set (items (lists ?db ! 0)). Some (item_id it) \<noteq> Some 9"
    by (simp add: apples_def pears_def plums_def)
  have i: "item_id plums = 2" "item_id apples = 1" by (simp_all add: plums_def apples_def)
  from delete_item [where st = fruit and db = ?db and ?st1.0 = fruit and listId = "Some 1"
      and ix = 0 and it = plums and pre = "[apples, pears]" and post = "[]" and itemId = "Some 9"]
    a b c d e
  have 1: "\<exists>st'. delete_groceries (Some 1) (Some 2) fruit = (Response 204 Empty, st') \<and>
      content st' = Stored \<lparr>lists = [\<lparr>list_id = 1, list_name = [0x46],
        items = [apples, pears]\<rparr>]\<rparr>"
    unfolding i by simp
  from delete_item [where st = fruit and db = ?db and ?st1.0 = fruit and listId = "Some 1"
      and ix = 0 and it = apples and pre = "[]" and post = "[]" and itemId = "Some 9"]
    a b c f
  have 2: "\<exists>st'. delete_groceries (Some 1) (Some 1) fruit = (Response 204 Empty, st') \<and>
      delete_groceries (Some 1) (Some 1) st' =
        (Response 404 (Message ''Item not found in list.''), st')"
    unfolding i by blast
  from delete_item [where st = fruit and db = ?db and ?st1.0 = fruit and listId = "Some 1"
      and ix = 0 and it = apples and pre = "[]" and post = "[]" and itemId = "Some 9"]
    a c g
  have 3: "delete_groceries (Some 1) (Some 9) fruit =
     (Response 404 (Message ''Item not found in list.''), fruit)"
    by blast
  from 1 2 3 show ?thesis by blast
qed

text \<open>
  The claim as it is worded, exactly one item removed for every list, fails on a list
  with a repeated id: one delete by id 1 removes both items with that id.
\<close>

theorem delete_item_counterexample:
  "content fruit = Stored \<lparr>lists = [\<lparr>list_id = 1, list_name = [0x46],
      items = [apples, pears, plums]\<rparr>]\<rparr> \<and>
   delete_groceries (Some 1) (Some 1) fruit =
     (Response 204 Empty,
      fruit\<lparr>content := Stored \<lparr>lists = [\<lparr>list_id = 1, list_name = [0x46],
        items = [plums]\<rparr>]\<rparr>\<rparr>)"
  by (simp add: delete_groceries_def readDatabase_def writeDatabase_def find_list_def Let_def
      fruit_def apples_def pears_def plums_def)

section \<open>Loading\<close>

text \<open>
  Claim C4. When the file does not exist and the write is accepted, \<^verbatim>\<open>readDatabase\<close>
  returns the default document and leaves it in the file; whenever it returns a document
  from a missing file, that document is the default one, it is the content of the file,
  and the next \<^verbatim>\<open>readDatabase\<close> returns the same document and changes nothing. The
  default document has one list, with id 1, the fixed name and no items.
\<close>

theorem load_creates_default:
  "(content st = ENOENT \<and> writable st \<longrightarrow>
      readDatabase st = (Inr initialData, st\<lparr>content := Stored initialData\<rparr>)) \<and>
   (content st = ENOENT \<and> readDatabase st = (Inr d, st') \<longrightarrow>
      d = initialData \<and> content st' = Stored initialData \<and> readDatabase st' = (Inr d, st')) \<and>
   lists initialData =
     [\<lparr>list_id = 1,
       list_name = [0x53, 0x6D, 0xE5, 0x68, 0x61, 0x6E, 0x64, 0x6C, 0x69, 0x6E, 0x67],
       items = []\<rparr>]"
  by (auto simp: readDatabase_def writeDatabase_def initialData_def split: if_splits)

theorem load_creates_default_witness:
  "content \<lparr>content = ENOENT, writable = True\<rparr> = ENOENT \<and>
   writable \<lparr>content = ENOENT, writable = True\<rparr> \<and>
   readDatabase \<lparr>content = ENOENT, writable = True\<rparr> =
     (Inr initialData, \<lparr>content = Stored initialData, writable = True\<rparr>) \<and>
   readDatabase \<lparr>content = Stored initialData, writable = True\<rparr> =
     (Inr initialData, \<lparr>content = Stored initialData, writable = True\<rparr>) \<and>
   length (lists initialData) = 1"
  using load_creates_default [of "\<lparr>content = ENOENT, writable = True\<rparr>" initialData
      "\<lparr>content = Stored initialData, writable = True\<rparr>"]
  by simp

section \<open>The name of a new item is not validated\<close>

lemma post_lists_rejects_invalid_name:
  "typeof name \<noteq> ''string'' \<or> name = JStr s \<and> trim s = [] \<Longrightarrow>
   post_lists lim name st = (Response 400 (Message ''List name is required.''), st)"
  by (auto simp: post_lists_def)

text \<open>
  Claim C3 asks \<^verbatim>\<open>POST /lists/:listId/groceries\<close> to reject a name that is empty,
  blank or no string as an invalid argument, as \<^verbatim>\<open>POST /lists\<close> does with answer
  400. The route has no such check. On the example store an empty and a blank name are
  accepted: the answer is 201 and an item with the empty name is written (for every
  engine that takes the two ids of the list as arguments). A name that is no string
  makes \<^verbatim>\<open>name.trim()\<close> throw inside the \<^verbatim>\<open>try\<close> block: nothing is written, and
  the answer is the 500 of an unreadable store.
\<close>

theorem post_groceries_unvalidated_name:
  "(2 \<le> lim \<longrightarrow>
      post_groceries lim (Some 1) (JStr []) shop =
        (Response 201 (ItemBody \<lparr>item_id = 3, item_name = [], checked = False, position = 2\<rparr>),
         shop\<lparr>content := Stored \<lparr>lists = [groceries\<lparr>items := [milk, bread,
            \<lparr>item_id = 3, item_name = [], checked = False, position = 2\<rparr>]\<rparr>]\<rparr>\<rparr>) \<and>
      post_groceries lim (Some 1) (JStr [0x20, 0x09]) shop =
        (Response 201 (ItemBody \<lparr>item_id = 3, item_name = [], checked = False, position = 2\<rparr>),
         shop\<lparr>content := Stored \<lparr>lists = [groceries\<lparr>items := [milk, bread,
            \<lparr>item_id = 3, item_name = [], checked = False, position = 2\<rparr>]\<rparr>]\<rparr>\<rparr>)) \<and>
   post_groceries lim (Some 1) JUndefined shop =
     (Response 500 (Message ''Error updating database.''), shop) \<and>
   post_groceries lim (Some 1) (JNum 5) shop =
     (Response 500 (Message ''Error updating database.''), shop) \<and>
   post_groceries lim (Some 1) (JStr [0x74, 0x65, 0x61]) (shop\<lparr>content := Unreadable\<rparr>) =
     (Response 500 (Message ''Error updating database.''), shop\<lparr>content := Unreadable\<rparr>)"
proof (cases "2 \<le> lim")
  case True
  then show ?thesis
    by (simp add: post_groceries_def readDatabase_def writeDatabase_def
        find_list_def newItemId_def newPosition_def add_one_def round_double_def
        trim_def is_white_def Let_def shop_def groceries_def milk_def bread_def)
next
  case False
  then show ?thesis
    by (simp add: post_groceries_def readDatabase_def writeDatabase_def
        find_list_def newItemId_def newPosition_def add_one_def round_double_def
        trim_def is_white_def Let_def shop_def groceries_def milk_def bread_def)
qed

theorem post_groceries_unvalidated_name_witness:
  "(2::nat) \<le> 65535 \<and>
   post_groceries 65535 (Some 1) (JStr []) shop =
     (Response 201 (ItemBody \<lparr>item_id = 3, item_name = [], checked = False, position = 2\<rparr>),
      shop\<lparr>content := Stored \<lparr>lists = [groceries\<lparr>items := [milk, bread,
         \<lparr>item_id = 3, item_name = [], checked = False, position = 2\<rparr>]\<rparr>]\<rparr>\<rparr>) \<and>
   post_groceries 65535 (Some 1) JUndefined shop =
     (Response 500 (Message ''Error updating database.''), shop)"
  using post_groceries_unvalidated_name [of 65535] by simp

end
